theory Spec2Isabelle
  imports Complex_Main
begin

section \<open>Python values and exceptions\<close>

text \<open>
  Python floats are idealised as real numbers: rounding, overflow to infinity and NaN are
  outside the model.  Everything else that a Python operation does beyond returning a
  value is written out: \<open>math.sqrt\<close> of a negative number and \<open>math.log\<close> of a
  non-positive number raise \<open>ValueError\<close>, a float division by zero raises
  \<open>ZeroDivisionError\<close>.  A failed read of the chain is \<open>UpstreamError\<close>.
\<close>

datatype error =
    ValueError string
  | ZeroDivisionError
  | TypeError
  | UpstreamError

definition and_then :: "error + 'a \<Rightarrow> ('a \<Rightarrow> error + 'b) \<Rightarrow> error + 'b" where
  "and_then r f = (case r of Inl e \<Rightarrow> Inl e | Inr v \<Rightarrow> f v)"

definition math_sqrt :: "real \<Rightarrow> error + real" where
  "math_sqrt x = (if x < 0 then Inl (ValueError ''math domain error'') else Inr (sqrt x))"

definition math_log :: "real \<Rightarrow> error + real" where
  "math_log x = (if x \<le> 0 then Inl (ValueError ''math domain error'') else Inr (ln x))"

definition float_div :: "real \<Rightarrow> real \<Rightarrow> error + real" where
  "float_div a b = (if b = 0 then Inl ZeroDivisionError else Inr (a / b))"

section \<open>liquidity\_manager.py: sizing and valuation\<close>

text \<open>
  \<open>LiquidityManager._compute_liquidity_for_capital(capital, p, p_a, p_b)\<close>.  The two guards
  come first; then line 42 evaluates \<open>1.0 / math.sqrt(p)\<close> and \<open>1.0 / math.sqrt(p_b)\<close>,
  line 43 the two square roots of the quote leg, line 44 the denominator
  \<open>x_human * p + y_human\<close>.
\<close>

definition compute_liquidity_for_capital :: "real \<Rightarrow> real \<Rightarrow> real \<Rightarrow> real \<Rightarrow> error + real" where
  "compute_liquidity_for_capital capital p p_a p_b =
     (if p \<le> 0 then Inl (ValueError ''Current price must be positive.'')
      else if p_a \<ge> p_b then Inl (ValueError ''Lower bound must be less than upper bound.'')
      else
        and_then (math_sqrt p) (\<lambda>sp.
        and_then (float_div 1 sp) (\<lambda>inv_sp.
        and_then (math_sqrt p_b) (\<lambda>sb.
        and_then (float_div 1 sb) (\<lambda>inv_sb.
        and_then (math_sqrt p_a) (\<lambda>sa.
          let x_human = inv_sp - inv_sb;
              y_human = sp - sa;
              denom_human = x_human * p + y_human
          in if denom_human = 0
             then Inl (ValueError ''Liquidity denominator computed as zero. Check price parameters.'')
             else Inr (capital / denom_human)))))))"


text \<open>
  A \<open>datetime\<close> (or pandas \<open>Timestamp\<close>) is its number of seconds since the epoch, read
  as UTC, and whether it carries a timezone.  \<open>replace(tzinfo=timezone.utc)\<close> sets the flag
  and keeps the fields.
\<close>

record py_datetime =
  seconds :: int
  aware :: bool

definition as_utc :: "py_datetime \<Rightarrow> py_datetime" where
  "as_utc t = (if aware t then t else t\<lparr>aware := True\<rparr>)"

definition plus_hours :: "py_datetime \<Rightarrow> int \<Rightarrow> py_datetime" where
  "plus_hours t h = t\<lparr>seconds := seconds t + 3600 * h\<rparr>"

text \<open>The \<open>config\<close> module: \<open>LIQUIDITY_RANGE\<close> and \<open>SIMULATION_SETTINGS\<close>.\<close>

record config_module =
  initial_capital :: real
  lower_bound_factor :: real
  upper_bound_factor :: real
  buffer_pct :: real
  wick_threshold :: real
  wick_lookback_hours :: int
  wick_cooldown_hours :: int

text \<open>The dictionary stored in \<open>self.position\<close>.\<close>

record position_dict =
  open_price :: real
  p_a :: real
  p_b :: real
  open_timestamp :: py_datetime
  capital_deployed :: real
  L_human :: real

text \<open>
  The mutable attributes of a \<open>LiquidityManager\<close>, with the configuration object and the
  slippage factor it was built with.
\<close>

record liquidity_manager =
  current_capital :: real
  position :: "position_dict option"
  slippage_factor :: real
  config :: config_module

text \<open>
  \<open>LiquidityManager._get_position_value(p)\<close>.  The position is read from the manager;
  each branch evaluates its square roots and quotients in the order of the source.
\<close>

definition get_position_value_impl :: "liquidity_manager \<Rightarrow> real \<Rightarrow> error + real" where
  "get_position_value_impl lm p =
     (case position lm of
        None \<Rightarrow> Inr 0
      | Some pos \<Rightarrow>
          if p \<le> p_a pos then
            and_then (math_sqrt (p_a pos)) (\<lambda>sa.
            and_then (float_div 1 sa) (\<lambda>inv_sa.
            and_then (math_sqrt (p_b pos)) (\<lambda>sb.
            and_then (float_div 1 sb) (\<lambda>inv_sb.
              let base_tokens = L_human pos * (inv_sa - inv_sb)
              in Inr (base_tokens * p)))))
          else if p \<ge> p_b pos then
            and_then (math_sqrt (p_b pos)) (\<lambda>sb.
            and_then (math_sqrt (p_a pos)) (\<lambda>sa.
              let quote_tokens = L_human pos * (sb - sa)
              in Inr quote_tokens))
          else
            and_then (math_sqrt p) (\<lambda>sp.
            and_then (float_div 1 sp) (\<lambda>inv_sp.
            and_then (math_sqrt (p_b pos)) (\<lambda>sb.
            and_then (float_div 1 sb) (\<lambda>inv_sb.
            and_then (math_sqrt (p_a pos)) (\<lambda>sa.
              let base_tokens = L_human pos * (inv_sp - inv_sb);
                  quote_tokens = L_human pos * (sp - sa)
              in Inr (base_tokens * p + quote_tokens)))))))"

text \<open>
  A method of the manager returns its result or the exception it raised, together with the
  manager as the call left it: what a method assigned before it raised stays assigned.
\<close>

type_synonym 'a lm_result = "(error + 'a) \<times> liquidity_manager"

text \<open>\<open>LiquidityManager.open_position(current_price, current_timestamp)\<close>.\<close>

definition open_position ::
  "liquidity_manager \<Rightarrow> real \<Rightarrow> py_datetime \<Rightarrow> position_dict lm_result" where
  "open_position lm current_price current_timestamp =
     (let pa = current_price * lower_bound_factor (config lm);
          pb = current_price * upper_bound_factor (config lm)
      in if pa \<ge> pb
         then (Inl (ValueError ''Invalid bounds: lower bound must be < upper bound.''), lm)
         else
           let p0 = max (min current_price pb) pa
           in case compute_liquidity_for_capital (current_capital lm) p0 pa pb of
                Inl e \<Rightarrow> (Inl e, lm)
              | Inr L \<Rightarrow>
                  let pos = \<lparr> open_price = current_price, p_a = pa, p_b = pb,
                              open_timestamp = as_utc current_timestamp,
                              capital_deployed = current_capital lm, L_human = L \<rparr>
                  in (Inr pos, lm\<lparr>position := Some pos\<rparr>))"

text \<open>\<open>LiquidityManager.get_position_value(current_price)\<close>: reads, assigns nothing.\<close>

definition get_position_value :: "liquidity_manager \<Rightarrow> real \<Rightarrow> real lm_result" where
  "get_position_value lm current_price = (get_position_value_impl lm current_price, lm)"


section \<open>The chain, as the code reads it\<close>

text \<open>
  Every read of the chain is a call that returns a value or fails.  The reads are taken
  from one fixed chain: the same block identifier gives the same answer each time.
  \<open>ticks\<close> returns a tuple whose entries 2 and 3 are the fee growth outside the tick for
  token0 and token1; the entries the code never reads are left out.
  \<open>get_token_decimals\<close> stands for the reads of \<open>token0()\<close>, \<open>token1()\<close> and the two
  \<open>decimals()\<close>.
\<close>

datatype block_identifier = Latest | Number int

record block =
  number :: int
  timestamp :: int

record tick_data =
  liquidityGross :: int
  liquidityNet :: int
  feeGrowthOutside0X128 :: int
  feeGrowthOutside1X128 :: int

record web3_ops =
  get_web3_instance :: "error + unit"
  get_block :: "block_identifier \<Rightarrow> error + block"
  get_token_decimals :: "error + int \<times> int"
  slot0 :: "block_identifier \<Rightarrow> error + int"
  feeGrowthGlobal0X128 :: "block_identifier \<Rightarrow> error + int"
  feeGrowthGlobal1X128 :: "block_identifier \<Rightarrow> error + int"
  ticks :: "int \<Rightarrow> block_identifier \<Rightarrow> error + tick_data"

section \<open>block\_search.py\<close>

datatype target_time = Epoch int | At py_datetime

text \<open>\<open>int(x)\<close> of a float truncates towards zero.\<close>

definition py_int :: "real \<Rightarrow> int" where
  "py_int x = (if x \<ge> 0 then \<lfloor>x\<rfloor> else \<lceil>x\<rceil>)"

text \<open>
  Step 5 of \<open>get_block_by_timestamp\<close>, the \<open>while\<close> loop with the two statements after it.
  One block is read per iteration; the bracket is updated before the tolerance test, and
  the test returns the probed block \<open>mid\<close>.
\<close>

function binary_search ::
  "web3_ops \<Rightarrow> int \<Rightarrow> int \<Rightarrow> int \<Rightarrow> int \<Rightarrow> int \<Rightarrow> int \<Rightarrow> error + int" where
  "binary_search web3 target_ts tolerance_seconds max_tries low high tries =
     (if low < high \<and> tries < max_tries then
        (let mid = (low + high) div 2
         in case get_block web3 (Number mid) of
              Inl e \<Rightarrow> Inl e
            | Inr blk \<Rightarrow>
                let blk_ts = timestamp blk;
                    low' = (if blk_ts < target_ts then mid + 1 else low);
                    high' = (if blk_ts < target_ts then high else mid)
                in if \<bar>blk_ts - target_ts\<bar> \<le> tolerance_seconds then Inr mid
                   else binary_search web3 target_ts tolerance_seconds max_tries low' high' (tries + 1))
      else if tries \<ge> max_tries
        then Inl (ValueError ''Exceeded maximum iterations; did not converge.'')
        else Inr low)"
  by pat_completeness auto
termination
  by (relation "measure (\<lambda>(web3, target_ts, tolerance_seconds, max_tries, low, high, tries).
                  nat (max_tries - tries))") auto

declare binary_search.simps [simp del]

text \<open>Step 4: the initial bracket from \<open>approx_block_time\<close>.\<close>

definition initial_window :: "real option \<Rightarrow> int \<Rightarrow> int \<Rightarrow> int \<Rightarrow> int \<times> int" where
  "initial_window approx_block_time latest_num latest_ts target_ts =
     (case approx_block_time of
        None \<Rightarrow> (0, latest_num)
      | Some abt \<Rightarrow>
          if abt \<noteq> 0 \<and> abt > 0 then
            (let blocks_back = py_int (real_of_int (latest_ts - target_ts) / abt);
                 guess = latest_num - blocks_back;
                 guess = max 0 (min guess latest_num);
                 low = max 0 (guess - 2 * blocks_back);
                 high = min latest_num (guess + 2 * blocks_back)
             in if low \<ge> high then (0, latest_num) else (low, high))
          else (0, latest_num))"

text \<open>
  \<open>get_block_by_timestamp(web3, target_time, approx_block_time=None, tolerance_seconds=5,
  max_tries=50)\<close>.  The message of the first error has a non-ASCII hyphen in the source.
\<close>

definition get_block_by_timestamp ::
  "web3_ops \<Rightarrow> target_time \<Rightarrow> real option \<Rightarrow> int \<Rightarrow> int \<Rightarrow> error + int" where
  "get_block_by_timestamp web3 target approx_block_time tolerance_seconds max_tries =
     and_then
       (case target of
          Epoch n \<Rightarrow> Inr n
        | At d \<Rightarrow> if aware d then Inr (seconds d)
                  else Inl (ValueError ''datetime must be timezone-aware (UTC).''))
       (\<lambda>target_ts.
     and_then (get_block web3 Latest) (\<lambda>latest_block.
       let latest_num = number latest_block;
           latest_ts = timestamp latest_block
       in if target_ts > latest_ts
          then Inl (ValueError ''Target time is in the future relative to latest block.'')
          else if \<bar>latest_ts - target_ts\<bar> \<le> tolerance_seconds then Inr latest_num
          else
            let (low, high) = initial_window approx_block_time latest_num latest_ts target_ts
            in binary_search web3 target_ts tolerance_seconds max_tries low high 0))"


section \<open>fee\_calculator.py\<close>

text \<open>\<open>10 ** k\<close> for an integer \<open>k\<close>: an integer power, a float when \<open>k\<close> is negative.\<close>

definition pow10 :: "int \<Rightarrow> real" where
  "pow10 k = (if k \<ge> 0 then 10 ^ nat k else 1 / 10 ^ nat (- k))"

text \<open>\<open>FeeCalculator.price_to_tick(price)\<close>.\<close>

definition price_to_tick :: "real \<Rightarrow> error + int" where
  "price_to_tick price = and_then (math_log price) (\<lambda>l. Inr \<lfloor>l / ln 1.0001\<rfloor>)"

text \<open>The dictionary returned by \<open>get_fee_growth_snapshot\<close>.\<close>

record snapshot =
  fee_growth_global0 :: int
  fee_growth_global1 :: int
  lower_tick_data :: tick_data
  upper_tick_data :: tick_data
  lower_tick :: int
  upper_tick :: int
  token0_decimals :: int
  token1_decimals :: int
  current_price_raw :: real
  mid_price :: real
  block_timestamp :: int
  block_number :: int

text \<open>
  \<open>FeeCalculator.get_fee_growth_snapshot(block_identifier, fixed_price=None)\<close>; the second
  argument is the module \<open>config\<close>, which the fee calculator reads directly.
\<close>

definition get_fee_growth_snapshot ::
  "web3_ops \<Rightarrow> config_module \<Rightarrow> block_identifier \<Rightarrow> real option \<Rightarrow> error + snapshot" where
  "get_fee_growth_snapshot ops cfg block_id fixed_price =
     and_then (get_web3_instance ops) (\<lambda>_.
     and_then (get_token_decimals ops) (\<lambda>(d0, d1).
     and_then (slot0 ops block_id) (\<lambda>sqrt_price_x96.
       let price_raw = (case fixed_price of
                          None \<Rightarrow> real_of_int (sqrt_price_x96 ^ 2) / 2 ^ 192
                        | Some fp \<Rightarrow> fp)
       in if price_raw = 0 then Inl (ValueError ''Invalid price reading (zero).'')
          else
            let human_price = (1 / price_raw) * pow10 (d1 - d0);
                mid = human_price;
                lower_target_price = mid * lower_bound_factor cfg;
                upper_target_price = mid * upper_bound_factor cfg
            in
              and_then (price_to_tick lower_target_price) (\<lambda>lt.
              and_then (price_to_tick upper_target_price) (\<lambda>ut.
              and_then (feeGrowthGlobal0X128 ops block_id) (\<lambda>g0.
              and_then (feeGrowthGlobal1X128 ops block_id) (\<lambda>g1.
              and_then (ticks ops lt block_id) (\<lambda>ltd.
              and_then (ticks ops ut block_id) (\<lambda>utd.
              and_then (get_block ops block_id) (\<lambda>blk.
                Inr \<lparr> fee_growth_global0 = g0, fee_growth_global1 = g1,
                      lower_tick_data = ltd, upper_tick_data = utd,
                      lower_tick = lt, upper_tick = ut,
                      token0_decimals = d0, token1_decimals = d1,
                      current_price_raw = price_raw, mid_price = mid,
                      block_timestamp = timestamp blk,
                      block_number = number blk \<rparr>))))))))))"

text \<open>
  \<open>FeeCalculator.compute_fee_growth_delta(snapshot0, snapshot1)\<close>.  The counters are Python
  integers, so the subtractions are those of the unbounded integers.
\<close>

definition compute_fee_growth_delta :: "snapshot \<Rightarrow> snapshot \<Rightarrow> int \<times> int" where
  "compute_fee_growth_delta snapshot0 snapshot1 =
     (let inside0_t0 = fee_growth_global0 snapshot0
                         - feeGrowthOutside0X128 (lower_tick_data snapshot0)
                         - feeGrowthOutside0X128 (upper_tick_data snapshot0);
          inside0_t1 = fee_growth_global0 snapshot1
                         - feeGrowthOutside0X128 (lower_tick_data snapshot1)
                         - feeGrowthOutside0X128 (upper_tick_data snapshot1);
          delta_fee_growth0 = inside0_t1 - inside0_t0;
          inside1_t0 = fee_growth_global1 snapshot0
                         - feeGrowthOutside1X128 (lower_tick_data snapshot0)
                         - feeGrowthOutside1X128 (upper_tick_data snapshot0);
          inside1_t1 = fee_growth_global1 snapshot1
                         - feeGrowthOutside1X128 (lower_tick_data snapshot1)
                         - feeGrowthOutside1X128 (upper_tick_data snapshot1);
          delta_fee_growth1 = inside1_t1 - inside1_t0
      in (delta_fee_growth0, delta_fee_growth1))"

text \<open>
  \<open>FeeCalculator.simulate_liquidity(mid_price, token0_decimals, token1_decimals,
  human_price)\<close>, with \<open>self.capital_usd\<close> as first argument.
\<close>

definition simulate_liquidity ::
  "config_module \<Rightarrow> real \<Rightarrow> real \<Rightarrow> int \<Rightarrow> int \<Rightarrow> real \<Rightarrow> error + real" where
  "simulate_liquidity cfg capital_usd mid d0 d1 human_price =
     (let lower_target_price = mid * lower_bound_factor cfg;
          upper_target_price = mid * upper_bound_factor cfg
      in
        and_then (math_sqrt mid) (\<lambda>sqrtP.
        and_then (math_sqrt lower_target_price) (\<lambda>sqrtPa.
        and_then (math_sqrt upper_target_price) (\<lambda>sqrtPb.
        and_then (float_div (sqrtPb - sqrtP) (sqrtP * sqrtPb)) (\<lambda>q.
          let token0_cost_factor = q / pow10 d0;
              token1_cost_factor = (sqrtP - sqrtPa) * human_price / pow10 d1;
              denom = token0_cost_factor + token1_cost_factor
          in if denom = 0
             then Inl (ValueError ''Liquidity denominator computed as zero. Check price parameters.'')
             else Inr (capital_usd / denom))))))"

text \<open>The dictionary returned by \<open>compute_fees_and_apr\<close>.\<close>

record fees_result =
  fees_token0_raw :: real
  fees_token1_raw :: real
  total_fees_usd :: real
  simulated_liquidity :: real
  period_seconds :: int
  apr_percent :: real

text \<open>
  \<open>FeeCalculator.compute_fees_and_apr(snapshot0, snapshot1, override_liquidity_snapshot)\<close>.
  The liquidity is simulated before the period is tested, and the quotient by
  \<open>self.capital_usd\<close> comes last.
\<close>

definition compute_fees_and_apr ::
  "config_module \<Rightarrow> real \<Rightarrow> snapshot \<Rightarrow> snapshot \<Rightarrow> snapshot option \<Rightarrow> error + fees_result" where
  "compute_fees_and_apr cfg capital_usd snapshot0 snapshot1 override_liquidity_snapshot =
     (let (delta_fee_growth0, delta_fee_growth1) = compute_fee_growth_delta snapshot0 snapshot1;
          src = (case override_liquidity_snapshot of None \<Rightarrow> snapshot1 | Some ov \<Rightarrow> ov);
          mid = current_price_raw src;
          human_price = mid_price src;
          d0 = token0_decimals snapshot1;
          d1 = token1_decimals snapshot1
      in
        and_then (simulate_liquidity cfg capital_usd mid d0 d1 human_price) (\<lambda>L.
          let scaling_factor = (2::real) ^ 128;
              fee_growth_per_unit0 = real_of_int delta_fee_growth0 / scaling_factor;
              fee_growth_per_unit1 = real_of_int delta_fee_growth1 / scaling_factor;
              f0_raw = fee_growth_per_unit0 * L;
              f1_raw = fee_growth_per_unit1 * L;
              fees_usd_token0 = f0_raw / pow10 d0;
              fees_usd_token1 = (f1_raw / pow10 d1) * human_price;
              total = fees_usd_token0 + fees_usd_token1;
              period = block_timestamp snapshot1 - block_timestamp snapshot0
          in if period \<le> 0
             then Inl (ValueError ''Invalid snapshot time period; period_seconds must be positive.'')
             else
               let seconds_per_year = (365 * 24 * 3600 :: real);
                   annualization_factor = seconds_per_year / real_of_int period
               in and_then (float_div total capital_usd) (\<lambda>share.
                    Inr \<lparr> fees_token0_raw = f0_raw, fees_token1_raw = f1_raw,
                          total_fees_usd = total, simulated_liquidity = L,
                          period_seconds = period,
                          apr_percent = share * annualization_factor * 100 \<rparr>)))"

text \<open>
  \<open>FeeCalculator.calculate_fees(fixed_price_for_snapshot1, override_liquidity_snapshot)\<close>,
  with \<open>self.start_time\<close>, \<open>self.end_time\<close> and \<open>self.capital_usd\<close> as arguments.  The block
  search is called with its defaults.
\<close>

definition calculate_fees ::
  "web3_ops \<Rightarrow> config_module \<Rightarrow> py_datetime \<Rightarrow> py_datetime \<Rightarrow> real \<Rightarrow>
   real option \<Rightarrow> snapshot option \<Rightarrow> error + fees_result" where
  "calculate_fees ops cfg start_time end_time capital_usd fixed_price_for_snapshot1
       override_liquidity_snapshot =
     and_then (get_web3_instance ops) (\<lambda>_.
     and_then (get_block_by_timestamp ops (At start_time) None 5 50) (\<lambda>start_block_number.
     and_then (get_block_by_timestamp ops (At end_time) None 5 50) (\<lambda>end_block_number.
     and_then (get_fee_growth_snapshot ops cfg (Number start_block_number) None) (\<lambda>snapshot0.
       let fixed = (case fixed_price_for_snapshot1 of
                      None \<Rightarrow> current_price_raw snapshot0 | Some fp \<Rightarrow> fp);
           ov = (case override_liquidity_snapshot of None \<Rightarrow> snapshot0 | Some s \<Rightarrow> s)
       in and_then (get_fee_growth_snapshot ops cfg (Number end_block_number) (Some fixed))
            (\<lambda>snapshot1. compute_fees_and_apr cfg capital_usd snapshot0 snapshot1 (Some ov))))))"


section \<open>liquidity\_manager.py: closing and rebalancing\<close>

text \<open>
  \<open>LiquidityManager.close_position(current_price, current_timestamp)\<close>.  The fee calculator
  is built from the open timestamp of the position, the close timestamp, the current
  capital and the shared \<open>web3_ops\<close>; it reads the module \<open>config\<close> (the argument \<open>cfg\<close>),
  not \<open>self.config\<close>.  The two assignments are the last statements before the return.
\<close>

definition close_position ::
  "web3_ops \<Rightarrow> config_module \<Rightarrow> liquidity_manager \<Rightarrow> real \<Rightarrow> py_datetime \<Rightarrow> real lm_result" where
  "close_position ops cfg lm current_price current_timestamp =
     (case position lm of
        None \<Rightarrow> (Inr (current_capital lm), lm)
      | Some pos \<Rightarrow>
          (let close_timestamp = as_utc current_timestamp
           in (case get_position_value_impl lm current_price of
                 Inl e \<Rightarrow> (Inl e, lm)
               | Inr position_value_before_slippage \<Rightarrow>
                   (let net_quote = position_value_before_slippage * (1 - slippage_factor lm)
                    in (case calculate_fees ops cfg (open_timestamp pos) close_timestamp
                               (current_capital lm) (Some current_price) None of
                          Inl e \<Rightarrow> (Inl e, lm)
                        | Inr res \<Rightarrow>
                            (let fees = total_fees_usd res;
                                 total_value = net_quote + fees
                             in (Inr total_value,
                                 lm\<lparr>current_capital := total_value, position := None\<rparr>)))))))"

text \<open>\<open>LiquidityManager.rebalance_position(current_price, current_timestamp)\<close>.\<close>

definition rebalance_position ::
  "web3_ops \<Rightarrow> config_module \<Rightarrow> liquidity_manager \<Rightarrow> real \<Rightarrow> py_datetime \<Rightarrow>
   (position_dict \<times> real) lm_result" where
  "rebalance_position ops cfg lm current_price current_timestamp =
     (case close_position ops cfg lm current_price current_timestamp of
        (Inl e, lm1) \<Rightarrow> (Inl e, lm1)
      | (Inr _, lm1) \<Rightarrow>
          (case open_position lm1 current_price current_timestamp of
             (Inl e, lm2) \<Rightarrow> (Inl e, lm2)
           | (Inr new_position, lm2) \<Rightarrow> (Inr (new_position, current_capital lm2), lm2)))"

section \<open>main.py: the backtest loop\<close>

text \<open>
  The price frame: whether its columns hold a close price (the columns are those of the
  frame, the same for every row), and its rows in index order, each the index timestamp
  with the close price.
\<close>

record price_frame =
  has_close :: bool
  rows :: "(py_datetime \<times> real) list"

text \<open>\<open>PositionRecorder\<close>: two lists of (timestamp, position value, price).\<close>

record position_recorder =
  records :: "(py_datetime \<times> real \<times> real) list"
  rebalances :: "(py_datetime \<times> real \<times> real) list"

definition record_position ::
  "position_recorder \<Rightarrow> py_datetime \<Rightarrow> real \<Rightarrow> real \<Rightarrow> position_recorder" where
  "record_position r t v p = r\<lparr>records := records r @ [(t, v, p)]\<rparr>"

definition record_rebalance ::
  "position_recorder \<Rightarrow> py_datetime \<Rightarrow> real \<Rightarrow> real \<Rightarrow> position_recorder" where
  "record_rebalance r t v p = r\<lparr>rebalances := rebalances r @ [(t, v, p)]\<rparr>"

text \<open>The variables of \<open>main\<close> that the loop updates.\<close>

record main_state =
  lm :: liquidity_manager
  recorder :: position_recorder
  rebalance_count :: int
  cooldown_until :: "py_datetime option"

text \<open>
  Line 67 and the first conjunct of line 69.  The prices are numpy floats: a quotient by
  zero is infinite (or NaN when the numerator is zero too) and raises nothing, so the
  comparison holds exactly when the numerator is not zero.
\<close>

definition wick_detected :: "config_module \<Rightarrow> real \<Rightarrow> real \<Rightarrow> bool" where
  "wick_detected cfg current_price past_price =
     (if past_price = 0 then current_price \<noteq> 0
      else \<bar>current_price - past_price\<bar> / past_price \<ge> wick_threshold cfg)"

text \<open>Lines 63 to 71: the value of \<open>cooldown_until\<close> after the wick block.\<close>

definition wick_cooldown ::
  "config_module \<Rightarrow> price_frame \<Rightarrow> py_datetime \<Rightarrow> real \<Rightarrow> py_datetime option \<Rightarrow>
   py_datetime option" where
  "wick_cooldown cfg price_data ts current_price cooldown =
     (let lookback_time = seconds ts - 3600 * wick_lookback_hours cfg;
          past_data = filter (\<lambda>(t, p). seconds t \<le> lookback_time) (rows price_data)
      in if past_data = [] then cooldown
         else
           let past_price = snd (last past_data)
           in if wick_detected cfg current_price past_price \<and>
                 (case cooldown of None \<Rightarrow> True | Some c \<Rightarrow> seconds ts \<ge> seconds c)
              then Some (plus_hours ts (wick_cooldown_hours cfg))
              else cooldown)"

text \<open>Line 79: the price is outside the buffered range of the stored position.\<close>

definition outside_buffer :: "config_module \<Rightarrow> position_dict \<Rightarrow> real \<Rightarrow> bool" where
  "outside_buffer cfg pos current_price =
     (current_price < p_a pos * (1 - buffer_pct cfg) \<or>
      current_price > p_b pos * (1 + buffer_pct cfg))"

text \<open>Line 80: \<open>cooldown_until and timestamp < cooldown_until\<close>.\<close>

definition in_cooldown :: "py_datetime option \<Rightarrow> py_datetime \<Rightarrow> bool" where
  "in_cooldown cooldown ts = (case cooldown of None \<Rightarrow> False | Some c \<Rightarrow> seconds ts < seconds c)"

text \<open>
  One iteration of the \<open>for\<close> loop of \<open>main\<close>, lines 47 to 91, on the row
  \<open>(ts, current_price)\<close>.  \<open>main\<close> catches nothing here: an exception ends the run.
\<close>

definition main_step ::
  "web3_ops \<Rightarrow> config_module \<Rightarrow> price_frame \<Rightarrow> main_state \<Rightarrow> py_datetime \<times> real \<Rightarrow>
   error + main_state" where
  "main_step ops cfg price_data st row =
     (let (ts, current_price) = row
      in if \<not> has_close price_data then Inr st
         else
           and_then
             (case position (lm st) of
                None \<Rightarrow> (case open_position (lm st) current_price ts of
                            (Inl e, _) \<Rightarrow> Inl e
                          | (Inr _, lm1) \<Rightarrow> Inr lm1)
              | Some _ \<Rightarrow> Inr (lm st))
             (\<lambda>lm1.
               let cooldown = wick_cooldown cfg price_data ts current_price (cooldown_until st)
               in case position lm1 of
                    None \<Rightarrow> Inl TypeError
                  | Some pos \<Rightarrow>
                      and_then
                        (if outside_buffer cfg pos current_price \<and> \<not> in_cooldown cooldown ts
                         then
                           (case rebalance_position ops cfg lm1 current_price ts of
                              (Inl e, _) \<Rightarrow> Inl e
                            | (Inr _, lm2) \<Rightarrow>
                                and_then (get_position_value_impl lm2 current_price) (\<lambda>v.
                                  Inr (lm2, rebalance_count st + 1,
                                       record_rebalance (recorder st) ts v current_price)))
                         else Inr (lm1, rebalance_count st, recorder st))
                        (\<lambda>(lm3, count, rec).
                           and_then (get_position_value_impl lm3 current_price) (\<lambda>v.
                             Inr \<lparr> lm = lm3,
                                   recorder = record_position rec ts v current_price,
                                   rebalance_count = count,
                                   cooldown_until = cooldown \<rparr>))))"

text \<open>The loop over the rows of the frame, and \<open>main\<close> from its initial state.\<close>

fun main_loop ::
  "web3_ops \<Rightarrow> config_module \<Rightarrow> price_frame \<Rightarrow> main_state \<Rightarrow> (py_datetime \<times> real) list \<Rightarrow>
   error + main_state" where
  "main_loop ops cfg price_data st [] = Inr st"
| "main_loop ops cfg price_data st (row # rest) =
     (case main_step ops cfg price_data st row of
        Inl e \<Rightarrow> Inl e
      | Inr st' \<Rightarrow> main_loop ops cfg price_data st' rest)"

definition main :: "web3_ops \<Rightarrow> config_module \<Rightarrow> price_frame \<Rightarrow> error + main_state" where
  "main ops cfg price_data =
     main_loop ops cfg price_data
       \<lparr> lm = \<lparr> current_capital = initial_capital cfg, position = None,
                 slippage_factor = 0.001, config = cfg \<rparr>,
         recorder = \<lparr> records = [], rebalances = [] \<rparr>,
         rebalance_count = 0,
         cooldown_until = None \<rparr>
       (rows price_data)"


section \<open>The specification's formulas and concrete inputs\<close>

text \<open>
  The sizing formula in the words of the specification: token0 cost factor
  \<open>1/\<surd>price - 1/\<surd>upperBound\<close>, token1 cost factor \<open>(\<surd>price - \<surd>lowerBound) \<times> price\<close>,
  \<open>L = capital / (token0CostFactor + token1CostFactor)\<close>.
\<close>

definition sizeLiquidity_spec :: "real \<Rightarrow> real \<Rightarrow> real \<Rightarrow> real \<Rightarrow> real" where
  "sizeLiquidity_spec capital price lowerBound upperBound =
     (let token0CostFactor = 1 / sqrt price - 1 / sqrt upperBound;
          token1CostFactor = (sqrt price - sqrt lowerBound) * price
      in capital / (token0CostFactor + token1CostFactor))"

text \<open>
  Fee growth inside the range at a snapshot, in the words of the specification:
  \<open>feeGrowthGlobal - feeGrowthOutside(lowerTick) - feeGrowthOutside(upperTick)\<close>, for each
  token.
\<close>

definition fee_growth_inside0 :: "snapshot \<Rightarrow> int" where
  "fee_growth_inside0 s =
     fee_growth_global0 s - feeGrowthOutside0X128 (lower_tick_data s)
       - feeGrowthOutside0X128 (upper_tick_data s)"

definition fee_growth_inside1 :: "snapshot \<Rightarrow> int" where
  "fee_growth_inside1 s =
     fee_growth_global1 s - feeGrowthOutside1X128 (lower_tick_data s)
       - feeGrowthOutside1X128 (upper_tick_data s)"

text \<open>
  The reference price that \<open>open_position\<close> sizes at, and the denominator that
  \<open>_compute_liquidity_for_capital\<close> forms from it.
\<close>

definition sizing_reference :: "liquidity_manager \<Rightarrow> real \<Rightarrow> real" where
  "sizing_reference m price =
     max (min price (price * upper_bound_factor (config m))) (price * lower_bound_factor (config m))"

definition sizing_denominator :: "liquidity_manager \<Rightarrow> real \<Rightarrow> real" where
  "sizing_denominator m price =
     (1 / sqrt (sizing_reference m price) - 1 / sqrt (price * upper_bound_factor (config m)))
        * sizing_reference m price
     + (sqrt (sizing_reference m price) - sqrt (price * lower_bound_factor (config m)))"

text \<open>The values of \<open>config.py\<close>.\<close>

definition default_config :: config_module where
  "default_config =
     \<lparr> initial_capital = 10000, lower_bound_factor = 0.85, upper_bound_factor = 1.15,
       buffer_pct = 0.01, wick_threshold = 0.08,
       wick_lookback_hours = 12, wick_cooldown_hours = 4 \<rparr>"

text \<open>A manager with no capital and no position; a timestamp without timezone.\<close>

definition broke_manager :: liquidity_manager where
  "broke_manager =
     \<lparr> current_capital = 0, position = None, slippage_factor = 0.001, config = default_config \<rparr>"

definition naive_time :: "int \<Rightarrow> py_datetime" where
  "naive_time s = \<lparr> seconds = s, aware = False \<rparr>"

text \<open>Snapshots whose counters are given and whose other fields are fixed.\<close>

definition flat_tick :: "int \<Rightarrow> int \<Rightarrow> tick_data" where
  "flat_tick out0 out1 =
     \<lparr> liquidityGross = 0, liquidityNet = 0, feeGrowthOutside0X128 = out0,
       feeGrowthOutside1X128 = out1 \<rparr>"

definition flat_snapshot :: "int \<Rightarrow> int \<Rightarrow> int \<Rightarrow> int \<Rightarrow> snapshot" where
  "flat_snapshot g0 g1 out ts =
     \<lparr> fee_growth_global0 = g0, fee_growth_global1 = g1,
       lower_tick_data = flat_tick out out, upper_tick_data = flat_tick 0 0,
       lower_tick = 0, upper_tick = 0, token0_decimals = 18, token1_decimals = 6,
       current_price_raw = 1, mid_price = 1,
       block_timestamp = ts, block_number = 0 \<rparr>"

text \<open>
  The prices that \<open>compute_fees_and_apr\<close> hands to \<open>simulate_liquidity\<close>: the raw and the
  human price of the override snapshot, or of \<open>snapshot1\<close> when there is none.
\<close>

definition liquidity_prices :: "snapshot \<Rightarrow> snapshot option \<Rightarrow> real \<times> real" where
  "liquidity_prices snapshot1 override_liquidity_snapshot =
     (let src = (case override_liquidity_snapshot of None \<Rightarrow> snapshot1 | Some ov \<Rightarrow> ov)
      in (current_price_raw src, mid_price src))"

text \<open>
  A synthetic chain with uniform block spacing: block \<open>n\<close> has timestamp
  \<open>n \<times> block_time\<close>, counted from block 0, and \<open>latest\<close> is the newest block.  Its pool has
  tokens of 18 and 6 decimals, a constant price and constant fee-growth counters.
\<close>

definition uniform_chain :: "int \<Rightarrow> int \<Rightarrow> web3_ops" where
  "uniform_chain block_time latest =
     \<lparr> get_web3_instance = Inr (),
       get_block = (\<lambda>b. case b of
                      Latest \<Rightarrow> Inr \<lparr> number = latest, timestamp = latest * block_time \<rparr>
                    | Number n \<Rightarrow> Inr \<lparr> number = n, timestamp = n * block_time \<rparr>),
       get_token_decimals = Inr (18, 6),
       slot0 = (\<lambda>_. Inr (2 ^ 96)),
       feeGrowthGlobal0X128 = (\<lambda>_. Inr (5 * 2 ^ 128)),
       feeGrowthGlobal1X128 = (\<lambda>_. Inr (3 * 2 ^ 128)),
       ticks = (\<lambda>_ _. Inr (flat_tick (2 ^ 128) (2 ^ 128))) \<rparr>"

text \<open>
  On that chain, \<open>b\<close> is the smallest block number whose timestamp is at least the target.
\<close>

definition first_block_not_before :: "int \<Rightarrow> int \<Rightarrow> int \<Rightarrow> bool" where
  "first_block_not_before block_time target_ts b \<longleftrightarrow>
     0 \<le> b \<and> target_ts \<le> b * block_time \<and> (\<forall>n \<in> {0..<b}. n * block_time < target_ts)"

definition aware_time :: "int \<Rightarrow> py_datetime" where
  "aware_time s = \<lparr> seconds = s, aware = True \<rparr>"

text \<open>
  What the class maintains.  \<open>self.position\<close> is \<open>None\<close> after construction and after a
  close, and it is assigned nowhere but at the end of \<open>open_position\<close>, which has then
  derived both bounds from the open price and the manager's configuration, found the lower
  one below the upper one, and taken the square root of the lower one.  The configuration
  of the manager is the module \<open>config\<close> that the fee calculator reads, as \<open>main\<close> builds it.
\<close>

definition opened_under :: "config_module \<Rightarrow> position_dict \<Rightarrow> bool" where
  "opened_under cfg pos \<longleftrightarrow>
     p_a pos = open_price pos * lower_bound_factor cfg \<and>
     p_b pos = open_price pos * upper_bound_factor cfg \<and>
     p_a pos < p_b pos \<and> 0 \<le> p_a pos"

definition manager_invariant :: "config_module \<Rightarrow> liquidity_manager \<Rightarrow> bool" where
  "manager_invariant cfg m \<longleftrightarrow>
     config m = cfg \<and>
     (case position m of None \<Rightarrow> True | Some pos \<Rightarrow> opened_under cfg pos)"

text \<open>
  A position with a given range, opened at price 2000 and timestamp 2000; a manager
  holding a position; a chain that cannot be connected to.
\<close>

definition position_with_range :: "real \<Rightarrow> real \<Rightarrow> position_dict" where
  "position_with_range lo hi =
     \<lparr> open_price = 2000, p_a = lo, p_b = hi, open_timestamp = aware_time 2000,
       capital_deployed = 10000, L_human = 1000 \<rparr>"

definition manager_with :: "config_module \<Rightarrow> position_dict \<Rightarrow> liquidity_manager" where
  "manager_with cfg pos =
     \<lparr> current_capital = 10000, position = Some pos, slippage_factor = 0.001, config = cfg \<rparr>"

definition offline_chain :: web3_ops where
  "offline_chain = (uniform_chain 2 2800)\<lparr>get_web3_instance := Inl UpstreamError\<rparr>"

text \<open>
  The variables of \<open>main\<close> around a given manager and cooldown, with nothing recorded yet;
  a price frame with a close column, from samples given as seconds and price.
\<close>

definition state_with :: "liquidity_manager \<Rightarrow> py_datetime option \<Rightarrow> main_state" where
  "state_with m cooldown =
     \<lparr> lm = m, recorder = \<lparr> records = [], rebalances = [] \<rparr>, rebalance_count = 0,
       cooldown_until = cooldown \<rparr>"

definition hourly_frame :: "(int \<times> real) list \<Rightarrow> price_frame" where
  "hourly_frame samples =
     \<lparr> has_close = True, rows = map (\<lambda>(s, p). (naive_time s, p)) samples \<rparr>"

section \<open>Sizing and valuation\<close>

lemma sqrt_16: "sqrt 16 = 4"
  using real_sqrt_abs [of 4] by simp

text \<open>
  Inside the range the two legs of the denominator are non-negative, and one of them is
  positive because the range is not empty.
\<close>

lemma sizing_denominator_pos:
  assumes "0 < pa" "pa \<le> p" "p \<le> pb" "pa < pb"
  shows "0 < (1 / sqrt p - 1 / sqrt pb) * p + (sqrt p - sqrt pa)"
proof -
  have p: "0 < p" using assms by linarith
  have pb: "0 < pb" using assms by linarith
  have a: "0 \<le> sqrt p - sqrt pa" using assms by simp
  have "1 / sqrt pb \<le> 1 / sqrt p"
    using assms p pb by (simp add: frac_le)
  then have b: "0 \<le> (1 / sqrt p - 1 / sqrt pb) * p" using p by simp
  show ?thesis
  proof (cases "pa < p")
    case True
    then have "0 < sqrt p - sqrt pa" by simp
    with b show ?thesis by linarith
  next
    case False
    then have "p < pb" using assms by linarith
    then have "1 / sqrt pb < 1 / sqrt p"
      using p pb by (simp add: frac_less2)
    then have "0 < (1 / sqrt p - 1 / sqrt pb) * p" using p by simp
    with a show ?thesis by linarith
  qed
qed

lemma compute_liquidity_unfold:
  assumes "0 < p" "0 \<le> pa" "pa < pb"
  shows "compute_liquidity_for_capital capital p pa pb =
     (if (1 / sqrt p - 1 / sqrt pb) * p + (sqrt p - sqrt pa) = 0
      then Inl (ValueError ''Liquidity denominator computed as zero. Check price parameters.'')
      else Inr (capital / ((1 / sqrt p - 1 / sqrt pb) * p + (sqrt p - sqrt pa))))"
  using assms
  by (simp add: compute_liquidity_for_capital_def and_then_def math_sqrt_def float_div_def Let_def)

text \<open>
  C1, as stated, fails: at capital 10, price 4 and bounds 1 and 16 the code returns
  \<open>L = 10 / ((1/2 - 1/4) \<times> 4 + (2 - 1)) = 5\<close>, while the formula of the specification gives
  \<open>10 / ((1/2 - 1/4) + (2 - 1) \<times> 4) = 40/17\<close>.
\<close>

theorem sizing_price_on_token1_leg_counterexample:
  "compute_liquidity_for_capital 10 4 1 16 = Inr 5 \<and>
   sizeLiquidity_spec 10 4 1 16 = 40 / 17 \<and>
   compute_liquidity_for_capital 10 4 1 16 \<noteq> Inr (sizeLiquidity_spec 10 4 1 16)"
  using compute_liquidity_unfold [of 4 1 16 10]
  by (simp add: sizeLiquidity_spec_def sqrt_16)

text \<open>
  C1 (amended).  For every capital, every price \<open>> 0\<close> and bounds
  \<open>0 < lowerBound < upperBound\<close>, \<open>_compute_liquidity_for_capital\<close> forms the denominator
  \<open>(1/\<surd>price - 1/\<surd>upperBound) \<times> price + (\<surd>price - \<surd>lowerBound)\<close>: the price multiplies the
  token0 leg, which turns the base amount into quote units.  It returns capital divided by
  that denominator when the denominator is not zero and raises otherwise; for a price
  within the bounds the denominator is positive.
\<close>

theorem sizing_price_on_token0_leg:
  assumes "0 < price" "0 < lowerBound" "lowerBound < upperBound"
  shows "compute_liquidity_for_capital capital price lowerBound upperBound =
     (let token0CostFactor = (1 / sqrt price - 1 / sqrt upperBound) * price;
          token1CostFactor = sqrt price - sqrt lowerBound
      in if token0CostFactor + token1CostFactor = 0
         then Inl (ValueError ''Liquidity denominator computed as zero. Check price parameters.'')
         else Inr (capital / (token0CostFactor + token1CostFactor)))
     \<and> (lowerBound \<le> price \<and> price \<le> upperBound \<longrightarrow>
          0 < (1 / sqrt price - 1 / sqrt upperBound) * price + (sqrt price - sqrt lowerBound))"
  using assms compute_liquidity_unfold [of price lowerBound upperBound capital]
    sizing_denominator_pos [of lowerBound price upperBound]
  by (simp add: Let_def)

theorem sizing_price_on_token0_leg_witness:
  "compute_liquidity_for_capital 10 4 1 16 = Inr 5"
  using sizing_price_on_token0_leg [of 4 1 16 10] by (simp add: sqrt_16)

text \<open>
  C5.  For every capital and every price strictly between the bounds
  (\<open>0 < lowerBound < price < upperBound\<close>), the sizing returns a liquidity \<open>L\<close>, and the
  value at that same price of any position with these bounds and this \<open>L\<close> is the capital.
  Over the reals the identity is exact.
\<close>

theorem sizing_valuation_round_trip:
  assumes "0 < lowerBound" "lowerBound < price" "price < upperBound"
  shows "\<exists>L. compute_liquidity_for_capital capital price lowerBound upperBound = Inr L \<and>
           (\<forall>m pos. position m = Some pos \<and> p_a pos = lowerBound \<and> p_b pos = upperBound \<and>
                     L_human pos = L \<longrightarrow>
                     get_position_value_impl m price = Inr capital)"
proof -
  let ?d = "(1 / sqrt price - 1 / sqrt upperBound) * price + (sqrt price - sqrt lowerBound)"
  have d: "0 < ?d"
    using assms sizing_denominator_pos [of lowerBound price upperBound] by simp
  have L: "compute_liquidity_for_capital capital price lowerBound upperBound = Inr (capital / ?d)"
    using assms d compute_liquidity_unfold [of price lowerBound upperBound capital] by simp
  have v: "get_position_value_impl m price = Inr capital"
    if "position m = Some pos" "p_a pos = lowerBound" "p_b pos = upperBound"
       "L_human pos = capital / ?d" for m pos
  proof -
    have "get_position_value_impl m price =
            Inr (capital / ?d * (1 / sqrt price - 1 / sqrt upperBound) * price
                 + capital / ?d * (sqrt price - sqrt lowerBound))"
      using that assms
      by (simp add: get_position_value_impl_def and_then_def math_sqrt_def float_div_def Let_def)
    also have "capital / ?d * (1 / sqrt price - 1 / sqrt upperBound) * price
                 + capital / ?d * (sqrt price - sqrt lowerBound) = capital / ?d * ?d"
      by (simp only: distrib_left mult.assoc)
    also have "capital / ?d * ?d = capital" using d by simp
    finally show ?thesis .
  qed
  show ?thesis using L v by blast
qed

theorem sizing_valuation_round_trip_witness:
  "get_position_value_impl
     \<lparr> current_capital = 10, position = Some \<lparr> open_price = 4, p_a = 1, p_b = 16,
          open_timestamp = naive_time 0, capital_deployed = 10, L_human = 5 \<rparr>,
       slippage_factor = 0.001, config = default_config \<rparr> 4 = Inr 10"
proof -
  obtain L where L: "compute_liquidity_for_capital 10 4 1 16 = Inr L"
    and v: "\<And>m pos. position m = Some pos \<and> p_a pos = 1 \<and> p_b pos = 16 \<and> L_human pos = L
              \<Longrightarrow> get_position_value_impl m 4 = Inr 10"
    using sizing_valuation_round_trip [of 1 4 16 10] by auto
  have "compute_liquidity_for_capital 10 4 1 16 = Inr 5"
    using compute_liquidity_unfold [of 4 1 16 10] by (simp add: sqrt_16)
  with L have "L = 5" by simp
  then show ?thesis
    using v [of _ "\<lparr> open_price = 4, p_a = 1, p_b = 16, open_timestamp = naive_time 0,
                    capital_deployed = 10, L_human = 5 \<rparr>"]
    by simp
qed

section \<open>Opening a position\<close>

lemma open_position_unfold:
  assumes "0 < price" "0 < lower_bound_factor (config m)"
    "lower_bound_factor (config m) < upper_bound_factor (config m)"
  shows "0 < sizing_denominator m price"
    and "open_position m price ts =
      (let pos = \<lparr> open_price = price,
                    p_a = price * lower_bound_factor (config m),
                    p_b = price * upper_bound_factor (config m),
                    open_timestamp = as_utc ts,
                    capital_deployed = current_capital m,
                    L_human = current_capital m / sizing_denominator m price \<rparr>
       in (Inr pos, m\<lparr>position := Some pos\<rparr>))"
proof -
  let ?pa = "price * lower_bound_factor (config m)"
  let ?pb = "price * upper_bound_factor (config m)"
  let ?p0 = "max (min price ?pb) ?pa"
  have pa: "0 < ?pa" using assms by simp
  have lt: "?pa < ?pb" using assms by simp
  have lo: "?pa \<le> ?p0" by simp
  have hi: "?p0 \<le> ?pb" using lt by simp
  have p0: "0 < ?p0" using pa lo by linarith
  have d: "0 < (1 / sqrt ?p0 - 1 / sqrt ?pb) * ?p0 + (sqrt ?p0 - sqrt ?pa)"
    by (rule sizing_denominator_pos [OF pa lo hi lt])
  then show "0 < sizing_denominator m price"
    by (simp add: sizing_denominator_def sizing_reference_def)
  have "compute_liquidity_for_capital (current_capital m) ?p0 ?pa ?pb =
          Inr (current_capital m / ((1 / sqrt ?p0 - 1 / sqrt ?pb) * ?p0 + (sqrt ?p0 - sqrt ?pa)))"
    using compute_liquidity_unfold [OF p0 _ lt, of "current_capital m"] pa d by simp
  then show "open_position m price ts =
      (let pos = \<lparr> open_price = price,
                    p_a = price * lower_bound_factor (config m),
                    p_b = price * upper_bound_factor (config m),
                    open_timestamp = as_utc ts,
                    capital_deployed = current_capital m,
                    L_human = current_capital m / sizing_denominator m price \<rparr>
       in (Inr pos, m\<lparr>position := Some pos\<rparr>))"
    using lt
    by (simp add: open_position_def Let_def sizing_denominator_def sizing_reference_def)
qed

text \<open>
  C10, as stated, fails: a manager whose current capital is 0 opens at price 2000 with the
  factors 0.85 and 1.15 and stores a position whose liquidity is 0, not \<open>> 0\<close>.
\<close>

theorem open_position_zero_liquidity_counterexample:
  "map_option L_human (position (snd (open_position broke_manager 2000 (naive_time 0)))) = Some 0"
  using open_position_unfold(2) [of 2000 broke_manager "naive_time 0"]
  by (simp add: broke_manager_def default_config_def Let_def)

text \<open>
  C10 (amended).  For every current price \<open>> 0\<close> and configured factors with
  \<open>0 < lowerBoundFactor < upperBoundFactor\<close>, \<open>open_position\<close> succeeds (the sizing
  denominator at the clamped reference price is positive, so no error branch is taken) and
  stores a position with \<open>lowerBound < upperBound\<close>; its liquidity \<open>L\<close> is \<open>> 0\<close> exactly when
  the current capital is \<open>> 0\<close>, and 0 exactly when the capital is 0.
\<close>

theorem open_position_succeeds:
  assumes "0 < price" "0 < lower_bound_factor (config m)"
    "lower_bound_factor (config m) < upper_bound_factor (config m)"
  shows "\<exists>pos. open_position m price ts = (Inr pos, m\<lparr>position := Some pos\<rparr>) \<and>
           p_a pos < p_b pos \<and>
           (0 < L_human pos \<longleftrightarrow> 0 < current_capital m) \<and>
           (L_human pos = 0 \<longleftrightarrow> current_capital m = 0)"
proof -
  have d: "0 < sizing_denominator m price"
    by (rule open_position_unfold(1) [OF assms])
  show ?thesis
    using assms d open_position_unfold(2) [OF assms, of ts]
    by (simp add: Let_def zero_less_divide_iff)
qed

theorem open_position_succeeds_witness:
  "\<exists>pos. open_position (broke_manager\<lparr>current_capital := 10000\<rparr>) 2000 (naive_time 0) =
            (Inr pos, broke_manager\<lparr>current_capital := 10000, position := Some pos\<rparr>) \<and>
         p_a pos < p_b pos \<and> 0 < L_human pos"
proof -
  let ?m = "broke_manager\<lparr>current_capital := 10000\<rparr>"
  have "0 < lower_bound_factor (config ?m)"
    and "lower_bound_factor (config ?m) < upper_bound_factor (config ?m)"
    by (simp_all add: broke_manager_def default_config_def)
  from open_position_succeeds [of 2000 ?m "naive_time 0", OF _ this]
  obtain pos where "open_position ?m 2000 (naive_time 0) = (Inr pos, ?m\<lparr>position := Some pos\<rparr>)"
    and "p_a pos < p_b pos" and "0 < L_human pos \<longleftrightarrow> 0 < current_capital ?m"
    by auto
  then show ?thesis by (auto simp: broke_manager_def)
qed

section \<open>Fee growth\<close>

text \<open>
  C6.  For every pair of snapshots the fee-growth delta of each token is the difference of
  the inside-growth values of the two snapshots, taken in the unbounded integers: nothing
  is reduced modulo the width of the counters, and the delta can be negative, as it is for
  both tokens between the two snapshots of the second conjunct.
\<close>

theorem fee_growth_delta_raw_difference:
  "compute_fee_growth_delta snapshot0 snapshot1 =
     (fee_growth_inside0 snapshot1 - fee_growth_inside0 snapshot0,
      fee_growth_inside1 snapshot1 - fee_growth_inside1 snapshot0)
   \<and> compute_fee_growth_delta (flat_snapshot 7 9 0 0) (flat_snapshot 8 9 3 10) = (- 2, - 3)"
  by (simp add: compute_fee_growth_delta_def fee_growth_inside0_def fee_growth_inside1_def
        flat_snapshot_def flat_tick_def Let_def)


section \<open>Block search\<close>

lemma halving:
  fixes d P :: int
  assumes "1 \<le> d" "d < 2 * P"
  shows "d div 2 < P" and "d - d div 2 - 1 < P"
  using assms by presburger+

text \<open>
  The loop on the uniform chain.  The bracket keeps every block below \<open>low\<close> before the
  target and the block \<open>high\<close> at or after it, and it halves at every iteration, so \<open>k\<close>
  further iterations suffice for a bracket shorter than \<open>2 ^ k\<close>.
\<close>

lemma binary_search_uniform:
  assumes bt: "0 < bt"
  shows "0 \<le> low \<Longrightarrow> low \<le> high \<Longrightarrow> target \<le> high * bt \<Longrightarrow>
         (\<forall>n \<in> {0..<low}. n * bt < target) \<Longrightarrow>
         high - low < 2 ^ k \<Longrightarrow> tries + int k < max_tries \<Longrightarrow>
         \<exists>b. binary_search (uniform_chain bt latest) target tol max_tries low high tries = Inr b \<and>
             low \<le> b \<and> b \<le> high \<and>
             (first_block_not_before bt target b \<or> \<bar>b * bt - target\<bar> \<le> tol)"
proof (induction k arbitrary: low high tries)
  case 0
  then have eq: "low = high" by simp
  have "binary_search (uniform_chain bt latest) target tol max_tries low high tries = Inr low"
    using eq 0 by (subst binary_search.simps) simp
  moreover have "first_block_not_before bt target low"
    using 0 eq by (simp add: first_block_not_before_def)
  ultimately show ?case using eq by simp
next
  case (Suc k)
  show ?case
  proof (cases "low = high")
    case True
    have "binary_search (uniform_chain bt latest) target tol max_tries low high tries = Inr low"
      using True Suc.prems by (subst binary_search.simps) simp
    moreover have "first_block_not_before bt target low"
      using Suc.prems True by (simp add: first_block_not_before_def)
    ultimately show ?thesis using True by simp
  next
    case False
    then have lt: "low < high" using Suc.prems by simp
    define mid where "mid = (low + high) div 2"
    have mid: "low \<le> mid" "mid < high" using lt by (simp_all add: mid_def)
    have tr: "tries < max_tries" using Suc.prems by simp
    have d: "1 \<le> high - low" "high - low < 2 * 2 ^ k" using lt Suc.prems by simp_all
    have mid_eq: "mid = low + (high - low) div 2" unfolding mid_def by presburger
    have sz1: "mid - low < 2 ^ k" using halving(1) [OF d] mid_eq by simp
    have sz2: "high - (mid + 1) < 2 ^ k" using halving(2) [OF d] mid_eq by simp
    have step: "binary_search (uniform_chain bt latest) target tol max_tries low high tries =
        (if \<bar>mid * bt - target\<bar> \<le> tol then Inr mid
         else binary_search (uniform_chain bt latest) target tol max_tries
                (if mid * bt < target then mid + 1 else low)
                (if mid * bt < target then high else mid) (tries + 1))"
      using lt tr
      by (subst binary_search.simps) (simp add: uniform_chain_def mid_def Let_def)
    show ?thesis
    proof (cases "\<bar>mid * bt - target\<bar> \<le> tol")
      case True
      then show ?thesis using step mid by simp
    next
      case far: False
      show ?thesis
      proof (cases "mid * bt < target")
        case True
        have inv: "\<forall>n \<in> {0..<mid + 1}. n * bt < target"
        proof
          fix n assume "n \<in> {0..<mid + 1}"
          then have "n \<le> mid" by simp
          then have "n * bt \<le> mid * bt" using bt by (simp add: mult_right_mono)
          then show "n * bt < target" using True by linarith
        qed
        have "\<exists>b. binary_search (uniform_chain bt latest) target tol max_tries (mid + 1) high (tries + 1)
                  = Inr b \<and> mid + 1 \<le> b \<and> b \<le> high \<and>
                 (first_block_not_before bt target b \<or> \<bar>b * bt - target\<bar> \<le> tol)"
          using Suc.prems mid sz2 inv by (intro Suc.IH) simp_all
        then show ?thesis using step far True mid by auto
      next
        case False
        have "\<exists>b. binary_search (uniform_chain bt latest) target tol max_tries low mid (tries + 1)
                  = Inr b \<and> low \<le> b \<and> b \<le> mid \<and>
                 (first_block_not_before bt target b \<or> \<bar>b * bt - target\<bar> \<le> tol)"
          using Suc.prems mid sz1 False by (intro Suc.IH) simp_all
        then show ?thesis using step far False mid by auto
      qed
    qed
  qed
qed


text \<open>
  C3, as stated, fails: with 2 seconds per block, latest block 100 and target time 101 the
  search probes block 50, whose timestamp 100 is within the 5 seconds of tolerance, and
  returns it, although block 50 lies before the target and the smallest block at or after
  the target is 51.  And on the chain of the blocks 0 and 1, with \<open>max_tries = 1\<close> and no
  tolerance, the single bisection step closes the bracket on block 1, but the test after
  the loop raises because the number of tries has reached \<open>max_tries\<close>.
\<close>

theorem block_search_tolerance_counterexample:
  "get_block_by_timestamp (uniform_chain 2 100) (Epoch 101) None 5 50 = Inr 50 \<and>
   50 * 2 < (101 :: int) \<and> \<not> first_block_not_before 2 101 50 \<and>
   get_block_by_timestamp (uniform_chain 2 1) (Epoch 1) None 0 1 =
     Inl (ValueError ''Exceeded maximum iterations; did not converge.'')"
  by (simp add: get_block_by_timestamp_def and_then_def uniform_chain_def Let_def
        initial_window_def binary_search.simps first_block_not_before_def)

text \<open>
  C3 (amended).  On every chain with uniform block spacing (block \<open>n\<close> at
  \<open>n \<times> block_time\<close>, \<open>block_time > 0\<close>) whose latest block number is below
  \<open>2 ^ (max_tries - 1)\<close>, and for every target time not after the latest block, the search
  over the full range returns a block, without exhausting \<open>max_tries\<close>; that block is the
  smallest block whose timestamp is at least the target, or a block whose timestamp is
  within \<open>tolerance_seconds\<close> of the target.  With a tolerance of 0 it is the smallest such
  block.
\<close>

theorem block_search_uniform_chain:
  assumes "0 < block_time" "0 \<le> latest" "target_ts \<le> latest * block_time"
    and "0 < max_tries" "latest < 2 ^ nat (max_tries - 1)"
  shows "\<exists>b. get_block_by_timestamp (uniform_chain block_time latest) (Epoch target_ts) None
               tolerance_seconds max_tries = Inr b \<and>
             0 \<le> b \<and> b \<le> latest \<and>
             (first_block_not_before block_time target_ts b \<or>
              \<bar>b * block_time - target_ts\<bar> \<le> tolerance_seconds) \<and>
             (tolerance_seconds \<le> 0 \<longrightarrow> first_block_not_before block_time target_ts b)"
proof -
  let ?ops = "uniform_chain block_time latest"
  let ?run = "get_block_by_timestamp ?ops (Epoch target_ts) None tolerance_seconds max_tries"
  have exact: "first_block_not_before block_time target_ts b"
    if "0 \<le> b" "\<bar>b * block_time - target_ts\<bar> \<le> tolerance_seconds" "tolerance_seconds \<le> 0" for b
  proof -
    have eq: "b * block_time = target_ts" using that by linarith
    have "n * block_time < target_ts" if "n \<in> {0..<b}" for n
    proof -
      have "n < b" using that by simp
      then have "n * block_time < b * block_time"
        using assms(1) by (simp add: mult_strict_right_mono)
      then show ?thesis using eq by simp
    qed
    then show ?thesis using that(1) eq by (simp add: first_block_not_before_def)
  qed
  obtain b where b: "?run = Inr b" "0 \<le> b" "b \<le> latest"
    "first_block_not_before block_time target_ts b \<or>
     \<bar>b * block_time - target_ts\<bar> \<le> tolerance_seconds"
  proof (cases "\<bar>latest * block_time - target_ts\<bar> \<le> tolerance_seconds")
    case True
    then have "?run = Inr latest"
      using assms(3)
      by (simp add: get_block_by_timestamp_def and_then_def uniform_chain_def Let_def)
    then show ?thesis using that True assms(2) by blast
  next
    case False
    then have run: "?run = binary_search ?ops target_ts tolerance_seconds max_tries 0 latest 0"
      using assms(3)
      by (simp add: get_block_by_timestamp_def and_then_def uniform_chain_def Let_def
            initial_window_def)
    have "int (nat (max_tries - 1)) = max_tries - 1" using assms(4) by simp
    then have "0 + int (nat (max_tries - 1)) < max_tries" by simp
    with binary_search_uniform [OF assms(1), of 0 latest target_ts "nat (max_tries - 1)" 0
        max_tries latest tolerance_seconds]
    obtain c where "binary_search ?ops target_ts tolerance_seconds max_tries 0 latest 0 = Inr c"
      "0 \<le> c" "c \<le> latest"
      "first_block_not_before block_time target_ts c \<or>
       \<bar>c * block_time - target_ts\<bar> \<le> tolerance_seconds"
      using assms by auto
    then show ?thesis using that run by simp
  qed
  show ?thesis using b exact [of b] by blast
qed

theorem block_search_uniform_chain_witness:
  "\<exists>b. get_block_by_timestamp (uniform_chain 2 100) (Epoch 101) None 0 50 = Inr b \<and>
       first_block_not_before 2 101 b"
  using block_search_uniform_chain [of 2 100 101 50 0] by auto

section \<open>Fees and annualised rate\<close>

lemma pow10_pos: "0 < pow10 k"
  by (simp add: pow10_def)

lemma simulate_liquidity_succeeds:
  assumes "0 < mid" "0 < human_price"
    and "0 < lower_bound_factor cfg" "lower_bound_factor cfg \<le> 1"
    and "1 \<le> upper_bound_factor cfg" "lower_bound_factor cfg < upper_bound_factor cfg"
  shows "\<exists>L. simulate_liquidity cfg capital_usd mid d0 d1 human_price = Inr L \<and>
             (capital_usd = 0 \<longrightarrow> L = 0)"
proof -
  let ?lf = "lower_bound_factor cfg" and ?uf = "upper_bound_factor cfg"
  let ?sP = "sqrt mid" and ?sPa = "sqrt (mid * ?lf)" and ?sPb = "sqrt (mid * ?uf)"
  let ?t0 = "(?sPb - ?sP) / (?sP * ?sPb) / pow10 d0"
  let ?t1 = "(?sP - ?sPa) * human_price / pow10 d1"
  have uf: "0 < ?uf" using assms by linarith
  have sP: "0 < ?sP" using assms by simp
  have sPb: "0 < ?sPb" using assms uf by simp
  have le_a: "mid * ?lf \<le> mid" using assms by (simp add: mult_le_cancel_left2)
  have le_b: "mid \<le> mid * ?uf" using assms by (simp add: mult_le_cancel_left1)
  have a: "?sPa \<le> ?sP" using le_a by simp
  have b: "?sP \<le> ?sPb" using le_b by simp
  have t0: "0 \<le> ?t0" using b sP sPb pow10_pos [of d0] by simp
  have t1: "0 \<le> ?t1" using a assms(2) pow10_pos [of d1] by simp
  have "0 < ?t0 + ?t1"
  proof (cases "?lf < 1")
    case True
    then have "mid * ?lf < mid" using assms by simp
    then have "?sPa < ?sP" by simp
    then have "0 < ?t1" using assms(2) pow10_pos [of d1] by simp
    with t0 show ?thesis by linarith
  next
    case False
    then have "1 < ?uf" using assms by linarith
    then have "mid < mid * ?uf" using assms by simp
    then have "?sP < ?sPb" by simp
    then have "0 < ?t0" using sP sPb pow10_pos [of d0] by simp
    with t1 show ?thesis by linarith
  qed
  then have nz: "?t0 + ?t1 \<noteq> 0" by simp
  have "0 \<le> mid * ?lf" "0 \<le> mid * ?uf" using assms uf by simp_all
  then have nn: "\<not> mid * ?lf < 0" "\<not> mid * ?uf < 0" by linarith+
  have "simulate_liquidity cfg capital_usd mid d0 d1 human_price = Inr (capital_usd / (?t0 + ?t1))"
    using assms uf sP sPb nz nn
    by (simp add: simulate_liquidity_def and_then_def math_sqrt_def float_div_def Let_def)
  then show ?thesis by simp
qed

text \<open>
  The denominator of \<open>simulate_liquidity\<close>: here the price multiplies the token1 leg, and
  each leg is scaled by the decimals of its token.
\<close>

lemma simulate_liquidity_unfold:
  assumes "0 < mid" "0 \<le> lower_bound_factor cfg" "0 < upper_bound_factor cfg"
  shows "simulate_liquidity cfg capital_usd mid d0 d1 human_price =
     (let token0_cost_factor =
            (1 / sqrt mid - 1 / sqrt (mid * upper_bound_factor cfg)) / pow10 d0;
          token1_cost_factor =
            (sqrt mid - sqrt (mid * lower_bound_factor cfg)) * human_price / pow10 d1
      in if token0_cost_factor + token1_cost_factor = 0
         then Inl (ValueError ''Liquidity denominator computed as zero. Check price parameters.'')
         else Inr (capital_usd / (token0_cost_factor + token1_cost_factor)))"
proof -
  have nn: "\<not> mid * lower_bound_factor cfg < 0" "\<not> mid * upper_bound_factor cfg < 0"
    using assms by (simp_all add: not_less)
  have sP: "sqrt mid \<noteq> 0" and sPb: "sqrt (mid * upper_bound_factor cfg) \<noteq> 0"
    using assms by simp_all
  have q: "(sqrt (mid * upper_bound_factor cfg) - sqrt mid)
             / (sqrt mid * sqrt (mid * upper_bound_factor cfg))
           = 1 / sqrt mid - 1 / sqrt (mid * upper_bound_factor cfg)"
    using sP sPb by (simp add: field_simps)
  show ?thesis
    using assms nn sP sPb
    by (simp add: simulate_liquidity_def and_then_def math_sqrt_def float_div_def Let_def q
          del: real_sqrt_eq_zero_cancel_iff)
qed

lemma compute_fees_and_apr_unfold:
  assumes "liquidity_prices snapshot1 ov = (mid, human_price)"
    and "simulate_liquidity cfg capital_usd mid (token0_decimals snapshot1)
           (token1_decimals snapshot1) human_price = Inr L"
    and "compute_fee_growth_delta snapshot0 snapshot1 = (delta0, delta1)"
  shows "compute_fees_and_apr cfg capital_usd snapshot0 snapshot1 ov =
     (let f0 = real_of_int delta0 / 2 ^ 128 * L;
          f1 = real_of_int delta1 / 2 ^ 128 * L;
          total = f0 / pow10 (token0_decimals snapshot1)
                  + f1 / pow10 (token1_decimals snapshot1) * human_price;
          period = block_timestamp snapshot1 - block_timestamp snapshot0
      in if period \<le> 0
         then Inl (ValueError ''Invalid snapshot time period; period_seconds must be positive.'')
         else if capital_usd = 0 then Inl ZeroDivisionError
         else Inr \<lparr> fees_token0_raw = f0, fees_token1_raw = f1, total_fees_usd = total,
                    simulated_liquidity = L, period_seconds = period,
                    apr_percent = total / capital_usd
                                  * (365 * 24 * 3600 / real_of_int period) * 100 \<rparr>)"
  using assms
  by (cases ov)
     (simp_all add: compute_fees_and_apr_def liquidity_prices_def and_then_def float_div_def
        Let_def)

lemma compute_fees_and_apr_simulation_fails:
  assumes "liquidity_prices snapshot1 ov = (mid, human_price)"
    and "simulate_liquidity cfg capital_usd mid (token0_decimals snapshot1)
           (token1_decimals snapshot1) human_price = Inl e"
  shows "compute_fees_and_apr cfg capital_usd snapshot0 snapshot1 ov = Inl e"
  using assms
  by (cases ov; cases "compute_fee_growth_delta snapshot0 snapshot1")
     (simp_all add: compute_fees_and_apr_def liquidity_prices_def and_then_def Let_def)

text \<open>
  C7, as stated, fails twice.  With a period of 0 and a raw price of 0 in the snapshot
  the liquidity simulation, which runs first, divides by zero: the error is not the one of
  the period.  With a positive period, no fee growth and a capital of 0 the last quotient
  divides by zero instead of returning fees 0 and rate 0.
\<close>

theorem fees_and_apr_other_errors_counterexample:
  "compute_fees_and_apr default_config 10000
     ((flat_snapshot 7 9 0 0)\<lparr>current_price_raw := 0\<rparr>)
     ((flat_snapshot 7 9 0 0)\<lparr>current_price_raw := 0\<rparr>) None = Inl ZeroDivisionError
   \<and> compute_fees_and_apr default_config 0 (flat_snapshot 7 9 0 0) (flat_snapshot 7 9 0 3600) None
       = Inl ZeroDivisionError"
proof
  show "compute_fees_and_apr default_config 10000
     ((flat_snapshot 7 9 0 0)\<lparr>current_price_raw := 0\<rparr>)
     ((flat_snapshot 7 9 0 0)\<lparr>current_price_raw := 0\<rparr>) None = Inl ZeroDivisionError"
    by (simp add: compute_fees_and_apr_def simulate_liquidity_def compute_fee_growth_delta_def
          flat_snapshot_def and_then_def math_sqrt_def float_div_def Let_def)
next
  let ?s1 = "flat_snapshot 7 9 0 3600"
  have prices: "liquidity_prices ?s1 None = (1, 1)"
    by (simp add: liquidity_prices_def flat_snapshot_def)
  obtain L where L: "simulate_liquidity default_config 0 1 (token0_decimals ?s1)
                       (token1_decimals ?s1) 1 = Inr L"
    using simulate_liquidity_succeeds [of 1 1 default_config 0]
    by (auto simp: default_config_def)
  have delta: "compute_fee_growth_delta (flat_snapshot 7 9 0 0) ?s1 = (0, 0)"
    by (simp add: compute_fee_growth_delta_def flat_snapshot_def flat_tick_def Let_def)
  show "compute_fees_and_apr default_config 0 (flat_snapshot 7 9 0 0) ?s1 None
          = Inl ZeroDivisionError"
    using compute_fees_and_apr_unfold [OF prices L delta]
    by (simp add: Let_def flat_snapshot_def)
qed

text \<open>
  C7 (amended).  For every pair of snapshots whose timestamp difference is \<open>\<le> 0\<close>,
  \<open>compute_fees_and_apr\<close> raises; the error is the one of the invalid period whenever the
  liquidity simulation, which runs before the test of the period, succeeds.  For every pair
  with a positive period and fee-growth delta 0 for both tokens it returns fees 0 and rate
  0, provided the simulation succeeds and the capital is not 0.  The simulation succeeds
  whenever both prices it is given are positive and the configured factors satisfy
  \<open>0 < lower \<le> 1 \<le> upper\<close> and \<open>lower < upper\<close>.
\<close>

theorem fees_and_apr_period_and_zero_growth:
  assumes "liquidity_prices snapshot1 ov = (mid, human_price)"
  shows "(block_timestamp snapshot1 - block_timestamp snapshot0 \<le> 0 \<longrightarrow>
            (\<exists>e. compute_fees_and_apr cfg capital_usd snapshot0 snapshot1 ov = Inl e) \<and>
            (\<forall>L. simulate_liquidity cfg capital_usd mid (token0_decimals snapshot1)
                    (token1_decimals snapshot1) human_price = Inr L \<longrightarrow>
                 compute_fees_and_apr cfg capital_usd snapshot0 snapshot1 ov =
                   Inl (ValueError ''Invalid snapshot time period; period_seconds must be positive.'')))
       \<and> (0 < block_timestamp snapshot1 - block_timestamp snapshot0 \<and>
            compute_fee_growth_delta snapshot0 snapshot1 = (0, 0) \<and> capital_usd \<noteq> 0 \<and>
            (\<exists>L. simulate_liquidity cfg capital_usd mid (token0_decimals snapshot1)
                    (token1_decimals snapshot1) human_price = Inr L) \<longrightarrow>
            (\<exists>r. compute_fees_and_apr cfg capital_usd snapshot0 snapshot1 ov = Inr r \<and>
                 total_fees_usd r = 0 \<and> apr_percent r = 0 \<and>
                 period_seconds r = block_timestamp snapshot1 - block_timestamp snapshot0))
       \<and> (0 < mid \<and> 0 < human_price \<and> 0 < lower_bound_factor cfg \<and>
            lower_bound_factor cfg \<le> 1 \<and> 1 \<le> upper_bound_factor cfg \<and>
            lower_bound_factor cfg < upper_bound_factor cfg \<longrightarrow>
            (\<exists>L. simulate_liquidity cfg capital_usd mid (token0_decimals snapshot1)
                    (token1_decimals snapshot1) human_price = Inr L))"
proof (intro conjI impI)
  let ?sim = "simulate_liquidity cfg capital_usd mid (token0_decimals snapshot1)
                (token1_decimals snapshot1) human_price"
  obtain delta0 delta1 where dl: "compute_fee_growth_delta snapshot0 snapshot1 = (delta0, delta1)"
    by (cases "compute_fee_growth_delta snapshot0 snapshot1")
  {
    assume p: "block_timestamp snapshot1 - block_timestamp snapshot0 \<le> 0"
    show "\<exists>e. compute_fees_and_apr cfg capital_usd snapshot0 snapshot1 ov = Inl e"
    proof (cases ?sim)
      case (Inl e)
      then show ?thesis using compute_fees_and_apr_simulation_fails [OF assms] by blast
    next
      case (Inr L)
      then show ?thesis
        using compute_fees_and_apr_unfold [OF assms _ dl] p by (simp add: Let_def)
    qed
    show "\<forall>L. ?sim = Inr L \<longrightarrow>
            compute_fees_and_apr cfg capital_usd snapshot0 snapshot1 ov =
              Inl (ValueError ''Invalid snapshot time period; period_seconds must be positive.'')"
      using compute_fees_and_apr_unfold [OF assms _ dl] p by (simp add: Let_def)
  }
  {
    assume h: "0 < block_timestamp snapshot1 - block_timestamp snapshot0 \<and>
               compute_fee_growth_delta snapshot0 snapshot1 = (0, 0) \<and> capital_usd \<noteq> 0 \<and>
               (\<exists>L. ?sim = Inr L)"
    then obtain L where L: "?sim = Inr L" by blast
    show "\<exists>r. compute_fees_and_apr cfg capital_usd snapshot0 snapshot1 ov = Inr r \<and>
               total_fees_usd r = 0 \<and> apr_percent r = 0 \<and>
               period_seconds r = block_timestamp snapshot1 - block_timestamp snapshot0"
      using compute_fees_and_apr_unfold [OF assms L, of snapshot0 0 0] h
      by (simp add: Let_def)
  }
  {
    assume "0 < mid \<and> 0 < human_price \<and> 0 < lower_bound_factor cfg \<and>
            lower_bound_factor cfg \<le> 1 \<and> 1 \<le> upper_bound_factor cfg \<and>
            lower_bound_factor cfg < upper_bound_factor cfg"
    then show "\<exists>L. ?sim = Inr L"
      using simulate_liquidity_succeeds [of mid human_price cfg capital_usd] by blast
  }
qed

theorem fees_and_apr_period_and_zero_growth_witness:
  "compute_fees_and_apr default_config 10000 (flat_snapshot 7 9 0 0) (flat_snapshot 7 9 0 0) None
     = Inl (ValueError ''Invalid snapshot time period; period_seconds must be positive.'')
   \<and> (\<exists>r. compute_fees_and_apr default_config 10000 (flat_snapshot 7 9 0 0)
             (flat_snapshot 7 9 0 3600) None = Inr r \<and>
           total_fees_usd r = 0 \<and> apr_percent r = 0 \<and> period_seconds r = 3600)"
proof -
  have cfg: "0 < lower_bound_factor default_config \<and> lower_bound_factor default_config \<le> 1 \<and>
             1 \<le> upper_bound_factor default_config \<and>
             lower_bound_factor default_config < upper_bound_factor default_config"
    by (simp add: default_config_def)
  have p: "liquidity_prices (flat_snapshot 7 9 0 t) None = (1, 1)" for t
    by (simp add: liquidity_prices_def flat_snapshot_def)
  have delta: "compute_fee_growth_delta (flat_snapshot 7 9 0 0) (flat_snapshot 7 9 0 t) = (0, 0)" for t
    by (simp add: compute_fee_growth_delta_def flat_snapshot_def flat_tick_def Let_def)
  have a: "compute_fees_and_apr default_config 10000 (flat_snapshot 7 9 0 0) (flat_snapshot 7 9 0 0) None
     = Inl (ValueError ''Invalid snapshot time period; period_seconds must be positive.'')"
    using fees_and_apr_period_and_zero_growth
            [OF p, of 0 "flat_snapshot 7 9 0 0" default_config 10000] cfg
    by (simp add: flat_snapshot_def)
  have b: "\<exists>r. compute_fees_and_apr default_config 10000 (flat_snapshot 7 9 0 0)
             (flat_snapshot 7 9 0 3600) None = Inr r \<and>
           total_fees_usd r = 0 \<and> apr_percent r = 0 \<and> period_seconds r = 3600"
    using fees_and_apr_period_and_zero_growth
            [OF p, of 3600 "flat_snapshot 7 9 0 0" default_config 10000] cfg delta [of 3600]
    by (simp add: flat_snapshot_def)
  show ?thesis using a b by blast
qed


section \<open>Fees on the synthetic chain\<close>

text \<open>
  On the uniform chain with 2 seconds per block and latest block 2800, the period from
  timestamp 2000 to timestamp 5600 resolves to the blocks 1002 and 2800; the counters do
  not move, so the fees of the period are 0.
\<close>

lemma search_start:
  "get_block_by_timestamp (uniform_chain 2 2800) (At (aware_time 2000)) None 5 50 = Inr 1002"
  by (simp add: get_block_by_timestamp_def and_then_def uniform_chain_def Let_def aware_time_def
        initial_window_def binary_search.simps)

lemma search_end:
  "get_block_by_timestamp (uniform_chain 2 2800) (At (aware_time 5600)) None 5 50 = Inr 2800"
  by (simp add: get_block_by_timestamp_def and_then_def uniform_chain_def Let_def aware_time_def
        initial_window_def binary_search.simps)

lemma snapshot_uniform:
  assumes "0 < fp"
  shows "get_fee_growth_snapshot (uniform_chain 2 2800) default_config (Number n) (Some fp) =
     Inr \<lparr> fee_growth_global0 = 5 * 2 ^ 128, fee_growth_global1 = 3 * 2 ^ 128,
           lower_tick_data = flat_tick (2 ^ 128) (2 ^ 128),
           upper_tick_data = flat_tick (2 ^ 128) (2 ^ 128),
           lower_tick = \<lfloor>ln (1 / fp * pow10 (- 12) * lower_bound_factor default_config) / ln 1.0001\<rfloor>,
           upper_tick = \<lfloor>ln (1 / fp * pow10 (- 12) * upper_bound_factor default_config) / ln 1.0001\<rfloor>,
           token0_decimals = 18, token1_decimals = 6,
           current_price_raw = fp, mid_price = 1 / fp * pow10 (- 12),
           block_timestamp = n * 2, block_number = n \<rparr>"
proof -
  have "0 < 1 / fp * pow10 (- 12)" using assms pow10_pos [of "- 12"] by simp
  then have "\<not> 1 / fp * pow10 (- 12) * lower_bound_factor default_config \<le> 0"
    "\<not> 1 / fp * pow10 (- 12) * upper_bound_factor default_config \<le> 0"
    by (simp_all add: default_config_def not_le)
  then show ?thesis
    using assms
    by (simp add: get_fee_growth_snapshot_def and_then_def uniform_chain_def price_to_tick_def
          math_log_def Let_def)
qed

lemma snapshot_uniform_slot0:
  "get_fee_growth_snapshot (uniform_chain 2 2800) default_config (Number n) None =
     get_fee_growth_snapshot (uniform_chain 2 2800) default_config (Number n) (Some 1)"
  by (simp add: get_fee_growth_snapshot_def and_then_def uniform_chain_def Let_def)

lemma uniform_chain_fees:
  assumes "0 < price" "capital \<noteq> 0"
  shows "\<exists>r. calculate_fees (uniform_chain 2 2800) default_config (aware_time 2000)
               (aware_time 5600) capital (Some price) None = Inr r \<and> total_fees_usd r = 0"
proof -
  let ?ops = "uniform_chain 2 2800"
  obtain s0 where s0: "get_fee_growth_snapshot ?ops default_config (Number 1002) None = Inr s0"
    and s0_f: "current_price_raw s0 = 1" "mid_price s0 = pow10 (- 12)" "block_timestamp s0 = 2004"
      "fee_growth_inside0 s0 = 3 * 2 ^ 128" "fee_growth_inside1 s0 = 2 ^ 128"
    using snapshot_uniform [of 1 1002]
    by (simp add: snapshot_uniform_slot0 fee_growth_inside0_def fee_growth_inside1_def flat_tick_def)
  obtain s1 where s1: "get_fee_growth_snapshot ?ops default_config (Number 2800) (Some price) = Inr s1"
    and s1_f: "token0_decimals s1 = 18" "token1_decimals s1 = 6" "block_timestamp s1 = 5600"
      "fee_growth_inside0 s1 = 3 * 2 ^ 128" "fee_growth_inside1 s1 = 2 ^ 128"
    using snapshot_uniform [OF assms(1), of 2800]
    by (simp add: fee_growth_inside0_def fee_growth_inside1_def flat_tick_def)
  have delta: "compute_fee_growth_delta s0 s1 = (0, 0)"
    using s0_f s1_f
    by (simp add: compute_fee_growth_delta_def fee_growth_inside0_def fee_growth_inside1_def Let_def)
  have prices: "liquidity_prices s1 (Some s0) = (1, pow10 (- 12))"
    using s0_f by (simp add: liquidity_prices_def)
  obtain L where L: "simulate_liquidity default_config capital 1 (token0_decimals s1)
                       (token1_decimals s1) (pow10 (- 12)) = Inr L"
    using simulate_liquidity_succeeds [of 1 "pow10 (- 12)" default_config capital]
      pow10_pos [of "- 12"]
    by (auto simp: default_config_def)
  have "\<exists>r. compute_fees_and_apr default_config capital s0 s1 (Some s0) = Inr r \<and>
             total_fees_usd r = 0"
    using compute_fees_and_apr_unfold [OF prices L delta] s0_f s1_f assms(2)
    by (simp add: Let_def)
  moreover have "get_web3_instance ?ops = Inr ()"
    by (simp add: uniform_chain_def)
  ultimately show ?thesis
    using s0 s1 search_start search_end
    by (simp add: calculate_fees_def and_then_def)
qed

section \<open>Closing and rebalancing\<close>

text \<open>
  A snapshot taken at a fixed price exists only if that price is positive: a price of 0 is
  refused, and a negative one makes the target price of the lower tick non-positive, whose
  logarithm raises.  So a close that succeeds on an open position was given a positive
  price.
\<close>

lemma snapshot_fixed_price_pos:
  assumes "get_fee_growth_snapshot ops cfg block_id (Some fp) = Inr s"
    and "0 < lower_bound_factor cfg"
  shows "0 < fp"
proof -
  from assms(1) have "\<exists>k. 0 < 1 / fp * pow10 k * lower_bound_factor cfg"
    by (auto simp: get_fee_growth_snapshot_def and_then_def price_to_tick_def math_log_def
          Let_def not_le split: sum.splits prod.splits if_splits)
  then obtain k where "0 < 1 / fp * pow10 k * lower_bound_factor cfg" ..
  moreover have "0 < pow10 k * lower_bound_factor cfg"
    using assms(2) pow10_pos [of k] by simp
  moreover have "1 / fp * pow10 k * lower_bound_factor cfg
                   = (1 / fp) * (pow10 k * lower_bound_factor cfg)"
    by simp
  ultimately have "0 < 1 / fp"
    by (simp only: zero_less_mult_pos2)
  then show ?thesis by simp
qed

lemma calculate_fees_fixed_price_pos:
  assumes "calculate_fees ops cfg start_time end_time capital_usd (Some fp) ov = Inr r"
    and "0 < lower_bound_factor cfg"
  shows "0 < fp"
proof -
  from assms(1) obtain n s where "get_fee_growth_snapshot ops cfg (Number n) (Some fp) = Inr s"
    by (auto simp: calculate_fees_def and_then_def Let_def split: sum.splits)
  then show ?thesis using assms(2) by (rule snapshot_fixed_price_pos)
qed

lemma close_position_cases:
  "close_position ops cfg m price ts =
     (case position m of
        None \<Rightarrow> (Inr (current_capital m), m)
      | Some pos \<Rightarrow>
          (case get_position_value_impl m price of
             Inl e \<Rightarrow> (Inl e, m)
           | Inr v \<Rightarrow>
               (case calculate_fees ops cfg (open_timestamp pos) (as_utc ts) (current_capital m)
                       (Some price) None of
                  Inl e \<Rightarrow> (Inl e, m)
                | Inr res \<Rightarrow>
                    (Inr (v * (1 - slippage_factor m) + total_fees_usd res),
                     m\<lparr>current_capital := v * (1 - slippage_factor m) + total_fees_usd res,
                       position := None\<rparr>))))"
  by (simp add: close_position_def Let_def split: option.splits sum.splits)

lemma close_position_failure:
  "close_position ops cfg m price ts = (Inl e, m') \<Longrightarrow> m' = m"
  by (auto simp: close_position_cases split: option.splits sum.splits)

lemma open_position_failure:
  "open_position m price ts = (Inl e, m') \<Longrightarrow> m' = m"
  by (auto simp: open_position_def Let_def split: sum.splits if_splits)

lemma close_position_success:
  assumes "close_position ops cfg m price ts = (Inr total_value, m')"
  shows "config m' = config m" and "position m' = None"
    and "position m \<noteq> None \<Longrightarrow> 0 < lower_bound_factor cfg \<Longrightarrow> 0 < price"
    and "position m = None \<Longrightarrow> m' = m"
proof -
  show "config m' = config m" "position m' = None" "position m = None \<Longrightarrow> m' = m"
    using assms by (auto simp: close_position_cases split: option.splits sum.splits)
  assume "position m \<noteq> None" and lf: "0 < lower_bound_factor cfg"
  then have "\<exists>opened res.
    calculate_fees ops cfg opened (as_utc ts) (current_capital m) (Some price) None = Inr res"
    using assms by (auto simp: close_position_cases split: option.splits sum.splits)
  then show "0 < price" using lf calculate_fees_fixed_price_pos by blast
qed

lemma sqrt_1600: "sqrt 1600 = 40"
  using real_sqrt_abs [of 40] by simp

lemma sqrt_2500: "sqrt 2500 = 50"
  using real_sqrt_abs [of 50] by simp

lemma as_utc_naive: "as_utc (naive_time s) = aware_time s"
  by (simp add: as_utc_def naive_time_def aware_time_def)

lemma close_on_uniform_chain_at:
  assumes "get_position_value_impl (manager_with cfg (position_with_range lo hi)) price = Inr v"
    and "0 < price"
  shows "close_position (uniform_chain 2 2800) default_config
           (manager_with cfg (position_with_range lo hi)) price (naive_time 5600) =
         (Inr (v * 0.999),
          \<lparr> current_capital = v * 0.999, position = None, slippage_factor = 0.001,
            config = cfg \<rparr>)"
proof -
  let ?m = "manager_with cfg (position_with_range lo hi)"
  obtain r where r: "calculate_fees (uniform_chain 2 2800) default_config (aware_time 2000)
               (aware_time 5600) 10000 (Some price) None = Inr r" "total_fees_usd r = 0"
    using uniform_chain_fees [OF assms(2), of 10000] by auto
  have f: "position ?m = Some (position_with_range lo hi)" "current_capital ?m = 10000"
    "slippage_factor ?m = 0.001" "open_timestamp (position_with_range lo hi) = aware_time 2000"
    by (simp_all add: manager_with_def position_with_range_def)
  have "?m\<lparr>current_capital := v * 0.999, position := None\<rparr> =
          \<lparr> current_capital = v * 0.999, position = None, slippage_factor = 0.001, config = cfg \<rparr>"
    by (simp add: manager_with_def)
  then show ?thesis
    by (simp add: close_position_cases as_utc_naive f assms(1) r)
qed

lemma close_on_uniform_chain:
  "close_position (uniform_chain 2 2800) default_config
     (manager_with cfg (position_with_range 1600 2500)) 3600 (naive_time 5600) =
   (Inr 9990, \<lparr> current_capital = 9990, position = None, slippage_factor = 0.001, config = cfg \<rparr>)"
proof -
  have "get_position_value_impl (manager_with cfg (position_with_range 1600 2500)) 3600
          = Inr 10000"
    by (simp add: get_position_value_impl_def manager_with_def position_with_range_def
          and_then_def math_sqrt_def float_div_def sqrt_1600 sqrt_2500)
  from close_on_uniform_chain_at [OF this] show ?thesis by simp
qed

lemma open_position_result:
  assumes "open_position m price ts = (Inr pos, m')"
  shows "opened_under (config m) pos" and "m' = m\<lparr>position := Some pos\<rparr>"
  using assms
  by (auto simp: open_position_def compute_liquidity_for_capital_def and_then_def math_sqrt_def
        float_div_def opened_under_def Let_def not_le not_less split: if_splits sum.splits)

lemma open_position_succeeds_signed:
  assumes "0 < price * lower_bound_factor (config m)"
    and "price * lower_bound_factor (config m) < price * upper_bound_factor (config m)"
  shows "\<exists>pos. open_position m price ts = (Inr pos, m\<lparr>position := Some pos\<rparr>)"
proof -
  let ?pa = "price * lower_bound_factor (config m)"
  let ?pb = "price * upper_bound_factor (config m)"
  let ?p0 = "max (min price ?pb) ?pa"
  have lo: "?pa \<le> ?p0" by simp
  have hi: "?p0 \<le> ?pb" using assms(2) by simp
  have p0: "0 < ?p0" using assms(1) lo by linarith
  have d: "0 < (1 / sqrt ?p0 - 1 / sqrt ?pb) * ?p0 + (sqrt ?p0 - sqrt ?pa)"
    by (rule sizing_denominator_pos [OF assms(1) lo hi assms(2)])
  have "compute_liquidity_for_capital (current_capital m) ?p0 ?pa ?pb =
          Inr (current_capital m / ((1 / sqrt ?p0 - 1 / sqrt ?pb) * ?p0 + (sqrt ?p0 - sqrt ?pa)))"
    using compute_liquidity_unfold [OF p0 _ assms(2), of "current_capital m"] assms(1) d by simp
  then show ?thesis
    using assms(2) by (simp add: open_position_def Let_def)
qed

text \<open>
  A snapshot at a fixed price exists only if the target price of the lower tick is
  positive, that is, if the fixed price has the sign of the lower factor.  A position is
  opened only if the bounds have the same orientation as at the open price, so a close
  that succeeded is followed by an open that succeeds.
\<close>

lemma snapshot_fixed_price_sign:
  assumes "get_fee_growth_snapshot ops cfg block_id (Some fp) = Inr s"
  shows "0 < fp * lower_bound_factor cfg"
proof -
  from assms have "\<exists>k. 0 < 1 / fp * pow10 k * lower_bound_factor cfg"
    by (auto simp: get_fee_growth_snapshot_def and_then_def price_to_tick_def math_log_def
          Let_def not_le split: sum.splits prod.splits if_splits)
  then obtain k where "0 < 1 / fp * pow10 k * lower_bound_factor cfg" ..
  then have "0 < pow10 k * (lower_bound_factor cfg / fp)" by (simp add: mult.commute)
  then have "0 < lower_bound_factor cfg / fp"
    using pow10_pos [of k] by (rule zero_less_mult_pos)
  then show ?thesis by (auto simp: zero_less_divide_iff zero_less_mult_iff)
qed

lemma close_position_price_sign:
  assumes "close_position ops cfg m price ts = (Inr total_value, m')" "position m \<noteq> None"
  shows "0 < price * lower_bound_factor cfg"
proof -
  from assms have "\<exists>opened res.
    calculate_fees ops cfg opened (as_utc ts) (current_capital m) (Some price) None = Inr res"
    by (auto simp: close_position_cases split: option.splits sum.splits)
  then obtain opened res where
    "calculate_fees ops cfg opened (as_utc ts) (current_capital m) (Some price) None = Inr res"
    by blast
  then obtain n s where "get_fee_growth_snapshot ops cfg (Number n) (Some price) = Inr s"
    by (auto simp: calculate_fees_def and_then_def Let_def split: sum.splits)
  then show ?thesis by (rule snapshot_fixed_price_sign)
qed

lemma range_orientation:
  fixes a l u p :: real
  assumes "0 \<le> a * l" "a * l < a * u" "0 < p * l"
  shows "p * l < p * u"
proof (cases "0 < l")
  case True
  then have p: "0 < p" using assms(3) by (simp add: zero_less_mult_iff)
  have "0 \<le> a" using assms(1) True by (simp add: zero_le_mult_iff)
  moreover have "a \<noteq> 0" using assms(2) by auto
  ultimately have "0 < a" by simp
  then have "l < u" using assms(2) by simp
  then show ?thesis using p by simp
next
  case False
  then have l: "l < 0" using assms(3) by (cases "l = 0") simp_all
  then have p: "p < 0" using assms(3) by (simp add: zero_less_mult_iff)
  have "a \<le> 0" using assms(1) l by (simp add: zero_le_mult_iff)
  moreover have "a \<noteq> 0" using assms(2) by auto
  ultimately have "a < 0" by simp
  then have "u < l" using assms(2) by simp
  then show ?thesis using p by simp
qed

text \<open>
  The invariant holds for a new manager and is kept by every call of the three operations,
  whether the call returns or raises.
\<close>

lemma manager_invariant_kept:
  assumes "manager_invariant cfg m"
  shows "manager_invariant cfg (snd (open_position m price ts))"
    and "manager_invariant cfg (snd (close_position ops cfg' m price ts))"
    and "manager_invariant cfg (snd (rebalance_position ops cfg' m price ts))"
proof -
  have op: "manager_invariant cfg (snd (open_position n price ts))"
    if "manager_invariant cfg n" for n
  proof (cases "open_position n price ts")
    case (Pair r n')
    show ?thesis
    proof (cases r)
      case (Inl e)
      then show ?thesis using Pair that open_position_failure by fastforce
    next
      case (Inr pos)
      then show ?thesis
        using Pair that open_position_result [of n price ts pos n']
        by (simp add: manager_invariant_def)
    qed
  qed
  have cl: "manager_invariant cfg (snd (close_position ops cfg' m price ts))"
    using assms
    by (auto simp: close_position_cases manager_invariant_def split: option.splits sum.splits)
  show "manager_invariant cfg (snd (open_position m price ts))" using op assms by simp
  show "manager_invariant cfg (snd (close_position ops cfg' m price ts))" by (rule cl)
  show "manager_invariant cfg (snd (rebalance_position ops cfg' m price ts))"
    using cl op [of "snd (close_position ops cfg' m price ts)"]
    by (auto simp: rebalance_position_def split: prod.splits sum.splits)
qed

lemma manager_invariant_initially:
  "manager_invariant cfg \<lparr> current_capital = c, position = None, slippage_factor = s,
                            config = cfg \<rparr>"
  by (simp add: manager_invariant_def)

text \<open>
  C4.  For every manager as the class maintains it (its configuration the one of the fee
  calculator, its position, if any, stored by \<open>open_position\<close>) and for every input, an
  \<open>open_position\<close>, \<open>close_position\<close> or \<open>rebalance_position\<close> that raises leaves the
  manager, and so the stored position and \<open>current_capital\<close>, exactly as it was before
  the call.  In particular no rebalance raises in its re-open step after its close step
  has updated the capital: a close that succeeds on an open position was given a price
  at which the re-open succeeds.
\<close>

theorem failed_operation_leaves_state:
  assumes "manager_invariant cfg m"
  shows "(open_position m price ts = (Inl e, m') \<longrightarrow> m' = m) \<and>
         (close_position ops cfg m price ts = (Inl e, m') \<longrightarrow> m' = m) \<and>
         (rebalance_position ops cfg m price ts = (Inl e, m') \<longrightarrow> m' = m)"
proof (intro conjI impI)
  assume "open_position m price ts = (Inl e, m')"
  then show "m' = m" by (rule open_position_failure)
next
  assume "close_position ops cfg m price ts = (Inl e, m')"
  then show "m' = m" by (rule close_position_failure)
next
  assume rb: "rebalance_position ops cfg m price ts = (Inl e, m')"
  obtain r1 m1 where c: "close_position ops cfg m price ts = (r1, m1)"
    by (cases "close_position ops cfg m price ts")
  show "m' = m"
  proof (cases r1)
    case (Inl e1)
    then have "m' = m1" using rb c by (simp add: rebalance_position_def)
    moreover have "m1 = m" using c Inl close_position_failure by blast
    ultimately show ?thesis by simp
  next
    case (Inr v)
    note cs = close_position_success [OF c [unfolded Inr]]
    obtain r2 m2 where o: "open_position m1 price ts = (r2, m2)"
      by (cases "open_position m1 price ts")
    have f: "r2 = Inl e \<and> m2 = m'"
      using rb c Inr o by (cases r2) (simp_all add: rebalance_position_def)
    then have m2: "m2 = m1" using o open_position_failure by blast
    show ?thesis
    proof (cases "position m")
      case None
      then show ?thesis using cs(4) f m2 by simp
    next
      case (Some pos)
      have cfg: "config m1 = cfg" using cs(1) assms by (simp add: manager_invariant_def)
      have inv: "opened_under cfg pos" using assms Some by (simp add: manager_invariant_def)
      have s: "0 < price * lower_bound_factor cfg"
        using close_position_price_sign [OF c [unfolded Inr]] Some by simp
      have "price * lower_bound_factor cfg < price * upper_bound_factor cfg"
        using range_orientation [of "open_price pos" "lower_bound_factor cfg"
                "upper_bound_factor cfg" price] inv s
        by (simp add: opened_under_def)
      then have "\<exists>p. open_position m1 price ts = (Inr p, m1\<lparr>position := Some p\<rparr>)"
        using open_position_succeeds_signed [of price m1 ts] s cfg by simp
      then show ?thesis using o f by auto
    qed
  qed
qed

theorem failed_operation_leaves_state_witness:
  "manager_invariant default_config (manager_with default_config (position_with_range 1700 2300)) \<and>
   rebalance_position offline_chain default_config
     (manager_with default_config (position_with_range 1700 2300)) 2324 (naive_time 5600) =
   (Inl UpstreamError, manager_with default_config (position_with_range 1700 2300))"
proof -
  let ?m = "manager_with default_config (position_with_range 1700 2300)"
  obtain r m' where r: "rebalance_position offline_chain default_config ?m 2324 (naive_time 5600)
                          = (r, m')"
    by (cases "rebalance_position offline_chain default_config ?m 2324 (naive_time 5600)")
  have "calculate_fees offline_chain default_config st et c fp ov = Inl UpstreamError"
    for st et c fp ov
    by (simp add: calculate_fees_def offline_chain_def and_then_def)
  then have "close_position offline_chain default_config ?m 2324 (naive_time 5600)
              = (Inl UpstreamError, ?m)"
    by (simp add: close_position_cases manager_with_def position_with_range_def
          get_position_value_impl_def and_then_def math_sqrt_def float_div_def)
  then have e: "r = Inl UpstreamError"
    using r by (simp add: rebalance_position_def)
  have inv: "manager_invariant default_config ?m"
    by (simp add: manager_invariant_def opened_under_def manager_with_def
          position_with_range_def default_config_def)
  then have "m' = ?m"
    using failed_operation_leaves_state
            [OF inv, of 2324 "naive_time 5600" UpstreamError m' offline_chain] r e
    by blast
  then show ?thesis using r e inv by simp
qed

text \<open>
  C9.  \<open>open_position\<close> and \<open>get_position_value\<close> leave \<open>current_capital\<close> as it was,
  whether they return or raise; \<open>close_position\<close> leaves the manager untouched when there
  is no position or when it raises, and on an open position it sets \<open>current_capital\<close> to
  the position value times \<open>1 - slippage_factor\<close> plus the fees of the period, and clears
  the position.
\<close>

theorem capital_changes_only_on_close:
  "current_capital (snd (open_position m price ts)) = current_capital m \<and>
   snd (get_position_value m price) = m \<and>
   (position m = None \<longrightarrow> close_position ops cfg m price ts = (Inr (current_capital m), m)) \<and>
   (\<forall>pos. position m = Some pos \<longrightarrow>
      (case close_position ops cfg m price ts of
         (Inl e, m') \<Rightarrow> m' = m
       | (Inr total_value, m') \<Rightarrow>
           (\<exists>v res. get_position_value_impl m price = Inr v \<and>
                calculate_fees ops cfg (open_timestamp pos) (as_utc ts) (current_capital m)
                  (Some price) None = Inr res \<and>
                total_value = v * (1 - slippage_factor m) + total_fees_usd res \<and>
                current_capital m' = total_value \<and> position m' = None)))"
proof (intro conjI allI impI)
  show "current_capital (snd (open_position m price ts)) = current_capital m"
    by (simp add: open_position_def Let_def split: sum.splits)
  show "snd (get_position_value m price) = m"
    by (simp add: get_position_value_def)
  show "close_position ops cfg m price ts = (Inr (current_capital m), m)" if "position m = None"
    using that by (simp add: close_position_cases)
  show "case close_position ops cfg m price ts of
         (Inl e, m') \<Rightarrow> m' = m
       | (Inr total_value, m') \<Rightarrow>
           (\<exists>v res. get_position_value_impl m price = Inr v \<and>
                calculate_fees ops cfg (open_timestamp pos) (as_utc ts) (current_capital m)
                  (Some price) None = Inr res \<and>
                total_value = v * (1 - slippage_factor m) + total_fees_usd res \<and>
                current_capital m' = total_value \<and> position m' = None)"
    if "position m = Some pos" for pos
    using that by (simp add: close_position_cases split: sum.splits)
qed

theorem capital_changes_only_on_close_witness:
  "close_position (uniform_chain 2 2800) default_config
     (manager_with default_config (position_with_range 1600 2500)) 3600 (naive_time 5600) =
   (Inr 9990, \<lparr> current_capital = 9990, position = None, slippage_factor = 0.001,
                 config = default_config \<rparr>)
   \<and> (\<exists>res. calculate_fees (uniform_chain 2 2800) default_config (aware_time 2000)
               (aware_time 5600) 10000 (Some 3600) None = Inr res \<and>
             9990 = 10000 * (1 - 0.001) + total_fees_usd res)"
proof -
  let ?m = "manager_with default_config (position_with_range 1600 2500)"
  have pos: "position ?m = Some (position_with_range 1600 2500)"
    by (simp add: manager_with_def)
  have c: "close_position (uniform_chain 2 2800) default_config ?m 3600 (naive_time 5600) =
     (Inr 9990, \<lparr> current_capital = 9990, position = None, slippage_factor = 0.001,
                   config = default_config \<rparr>)"
    by (rule close_on_uniform_chain)
  have v: "get_position_value_impl ?m 3600 = Inr 10000"
    by (simp add: get_position_value_impl_def manager_with_def position_with_range_def
          and_then_def math_sqrt_def float_div_def sqrt_1600 sqrt_2500)
  from capital_changes_only_on_close
         [of ?m 3600 "naive_time 5600" "uniform_chain 2 2800" default_config] pos c v
  have "\<exists>res. calculate_fees (uniform_chain 2 2800) default_config
                 (open_timestamp (position_with_range 1600 2500)) (as_utc (naive_time 5600))
                 (current_capital ?m) (Some 3600) None = Inr res \<and>
               9990 = 10000 * (1 - slippage_factor ?m) + total_fees_usd res"
    by auto
  then have "\<exists>res. calculate_fees (uniform_chain 2 2800) default_config (aware_time 2000)
               (aware_time 5600) 10000 (Some 3600) None = Inr res \<and>
             9990 = 10000 * (1 - 0.001) + total_fees_usd res"
    by (simp add: as_utc_naive manager_with_def position_with_range_def)
  with c show ?thesis by blast
qed


section \<open>The backtest loop\<close>

text \<open>
  One iteration on a frame with a close column and a manager that holds a position: the
  wick block fixes the cooldown, then the price is compared with the buffered range.
\<close>

lemma main_step_open:
  assumes "has_close pd" "position (lm st) = Some pos"
  shows "main_step ops cfg pd st (ts, price) =
    (let cooldown = wick_cooldown cfg pd ts price (cooldown_until st)
     in if outside_buffer cfg pos price \<and> \<not> in_cooldown cooldown ts
        then (case rebalance_position ops cfg (lm st) price ts of
                (Inl e, _) \<Rightarrow> Inl e
              | (Inr _, lm2) \<Rightarrow>
                  (case get_position_value_impl lm2 price of
                     Inl e \<Rightarrow> Inl e
                   | Inr v \<Rightarrow>
                       Inr \<lparr> lm = lm2,
                             recorder = record_position
                                          (record_rebalance (recorder st) ts v price) ts v price,
                             rebalance_count = rebalance_count st + 1,
                             cooldown_until = cooldown \<rparr>))
        else (case get_position_value_impl (lm st) price of
                Inl e \<Rightarrow> Inl e
              | Inr v \<Rightarrow>
                  Inr \<lparr> lm = lm st,
                        recorder = record_position (recorder st) ts v price,
                        rebalance_count = rebalance_count st,
                        cooldown_until = cooldown \<rparr>))"
  using assms
  by (simp add: main_step_def and_then_def Let_def split: prod.splits sum.splits)

lemma main_step_cooldown:
  assumes "main_step ops cfg pd st (ts, price) = Inr st'" "has_close pd"
  shows "cooldown_until st' = wick_cooldown cfg pd ts price (cooldown_until st)"
  using assms
  by (auto simp: main_step_def and_then_def Let_def split: prod.splits sum.splits option.splits
        if_splits)

lemma wick_cooldown_eq:
  "wick_cooldown cfg pd ts price c =
     (if filter (\<lambda>(t, p). seconds t \<le> seconds ts - 3600 * wick_lookback_hours cfg) (rows pd) \<noteq> [] \<and>
         wick_detected cfg price
           (snd (last (filter (\<lambda>(t, p). seconds t \<le> seconds ts - 3600 * wick_lookback_hours cfg)
                         (rows pd)))) \<and>
         \<not> in_cooldown c ts
      then Some (plus_hours ts (wick_cooldown_hours cfg))
      else c)"
  by (cases c) (auto simp: wick_cooldown_def in_cooldown_def Let_def)

lemma position_value_defined:
  assumes "position m = Some pos" "0 < p_a pos" "0 < p_b pos"
  shows "\<exists>v. get_position_value_impl m price = Inr v"
proof -
  have "0 < price" if "\<not> price \<le> p_a pos" using that assms(2) by linarith
  then show ?thesis
    using assms
    by (auto simp: get_position_value_impl_def and_then_def math_sqrt_def float_div_def Let_def)
qed

lemma quiet_step:
  assumes "has_close pd" "position (lm st) = Some pos" "0 < p_a pos" "0 < p_b pos"
    and "\<not> outside_buffer cfg pos price"
  shows "\<exists>v. main_step ops cfg pd st (ts, price) =
           Inr \<lparr> lm = lm st, recorder = record_position (recorder st) ts v price,
                 rebalance_count = rebalance_count st,
                 cooldown_until = wick_cooldown cfg pd ts price (cooldown_until st) \<rparr>"
proof -
  obtain v where "get_position_value_impl (lm st) price = Inr v"
    using position_value_defined [OF assms(2,3,4)] by blast
  then have "main_step ops cfg pd st (ts, price) =
           Inr \<lparr> lm = lm st, recorder = record_position (recorder st) ts v price,
                 rebalance_count = rebalance_count st,
                 cooldown_until = wick_cooldown cfg pd ts price (cooldown_until st) \<rparr>"
    using assms(5) by (simp add: main_step_open [OF assms(1,2)] Let_def)
  then show ?thesis ..
qed

lemma wick_example:
  "wick_cooldown default_config (hourly_frame [(0, 2000), (43200, 2200)]) (naive_time 43200) 2200 c
     = (if in_cooldown c (naive_time 43200) then c else Some (naive_time 57600))"
  by (simp add: wick_cooldown_eq hourly_frame_def naive_time_def default_config_def
        wick_detected_def plus_hours_def)

lemma quiet_example:
  "\<exists>v. main_step offline_chain default_config (hourly_frame [(0, 2000), (43200, 2200)])
          (state_with (manager_with default_config (position_with_range 1700 2300)) c)
          (naive_time 43200, 2200) =
        Inr \<lparr> lm = manager_with default_config (position_with_range 1700 2300),
              recorder = record_position \<lparr> records = [], rebalances = [] \<rparr>
                           (naive_time 43200) v 2200,
              rebalance_count = 0,
              cooldown_until = (if in_cooldown c (naive_time 43200) then c
                                else Some (naive_time 57600)) \<rparr>"
proof -
  let ?st = "state_with (manager_with default_config (position_with_range 1700 2300)) c"
  have "has_close (hourly_frame [(0, 2000), (43200, 2200)])"
    and "position (lm ?st) = Some (position_with_range 1700 2300)"
    and "0 < p_a (position_with_range 1700 2300)" "0 < p_b (position_with_range 1700 2300)"
    and "\<not> outside_buffer default_config (position_with_range 1700 2300) 2200"
    by (simp_all add: hourly_frame_def state_with_def manager_with_def position_with_range_def
          outside_buffer_def default_config_def)
  from quiet_step [OF this, of offline_chain "naive_time 43200"]
  obtain v where "main_step offline_chain default_config (hourly_frame [(0, 2000), (43200, 2200)])
          ?st (naive_time 43200, 2200) =
        Inr \<lparr> lm = lm ?st, recorder = record_position (recorder ?st) (naive_time 43200) v 2200,
              rebalance_count = rebalance_count ?st,
              cooldown_until = wick_cooldown default_config
                 (hourly_frame [(0, 2000), (43200, 2200)]) (naive_time 43200) 2200
                 (cooldown_until ?st) \<rparr>"
    by blast
  moreover have "lm ?st = manager_with default_config (position_with_range 1700 2300)"
    "recorder ?st = \<lparr> records = [], rebalances = [] \<rparr>" "rebalance_count ?st = 0"
    "cooldown_until ?st = c"
    by (simp_all add: state_with_def)
  ultimately have "main_step offline_chain default_config (hourly_frame [(0, 2000), (43200, 2200)])
          ?st (naive_time 43200, 2200) =
        Inr \<lparr> lm = manager_with default_config (position_with_range 1700 2300),
              recorder = record_position \<lparr> records = [], rebalances = [] \<rparr>
                           (naive_time 43200) v 2200,
              rebalance_count = 0,
              cooldown_until = (if in_cooldown c (naive_time 43200) then c
                                else Some (naive_time 57600)) \<rparr>"
    by (simp only: wick_example)
  then show ?thesis ..
qed

text \<open>
  C2, as stated, fails: at timestamp 43200 the price 2200 is 10 percent above the price
  2000 of twelve hours before, a wick, while a cooldown until 50400 is still active.  The
  step leaves \<open>cooldown_until\<close> at 50400; it does not set it to 43200 plus four hours,
  which is 57600.
\<close>

theorem wick_inside_cooldown_counterexample:
  "wick_detected default_config 2200 2000 \<and>
   map_sum id cooldown_until
     (main_step offline_chain default_config (hourly_frame [(0, 2000), (43200, 2200)])
        (state_with (manager_with default_config (position_with_range 1700 2300))
           (Some (naive_time 50400)))
        (naive_time 43200, 2200)) = Inr (Some (naive_time 50400)) \<and>
   plus_hours (naive_time 43200) (wick_cooldown_hours default_config) = naive_time 57600"
proof -
  have "in_cooldown (Some (naive_time 50400)) (naive_time 43200)"
    by (simp add: in_cooldown_def naive_time_def)
  then have "map_sum id cooldown_until
     (main_step offline_chain default_config (hourly_frame [(0, 2000), (43200, 2200)])
        (state_with (manager_with default_config (position_with_range 1700 2300))
           (Some (naive_time 50400)))
        (naive_time 43200, 2200)) = Inr (Some (naive_time 50400))"
    using quiet_example [of "Some (naive_time 50400)"] by auto
  then show ?thesis
    by (simp add: wick_detected_def default_config_def plus_hours_def naive_time_def)
qed

text \<open>
  C2 (amended).  After every step of the loop that completes, \<open>cooldown_until\<close> is
  \<open>timestamp + wick_cooldown_hours\<close> exactly when a lookback sample exists, the price change
  against it reaches the wick threshold, and no earlier cooldown is still active at the
  timestamp (\<open>cooldown_until\<close> unset, or the timestamp has reached it); otherwise it keeps
  its value.  A fresh wick inside an active cooldown window does not extend the cooldown.
\<close>

theorem wick_cooldown_guarded:
  assumes "main_step ops cfg price_data st (ts, price) = Inr st'" "has_close price_data"
    and "past = filter (\<lambda>(t, p). seconds t \<le> seconds ts - 3600 * wick_lookback_hours cfg)
                  (rows price_data)"
  shows "cooldown_until st' =
     (if past \<noteq> [] \<and> wick_detected cfg price (snd (last past)) \<and>
         \<not> in_cooldown (cooldown_until st) ts
      then Some (plus_hours ts (wick_cooldown_hours cfg))
      else cooldown_until st)"
  using main_step_cooldown [OF assms(1,2)] assms(3)
  by (simp only: wick_cooldown_eq)


theorem wick_cooldown_guarded_witness:
  "map_sum id cooldown_until
     (main_step offline_chain default_config (hourly_frame [(0, 2000), (43200, 2200)])
        (state_with (manager_with default_config (position_with_range 1700 2300)) None)
        (naive_time 43200, 2200)) = Inr (Some (naive_time 57600))"
proof -
  let ?pd = "hourly_frame [(0, 2000), (43200, 2200)]"
  let ?st = "state_with (manager_with default_config (position_with_range 1700 2300)) None"
  obtain st' where st': "main_step offline_chain default_config ?pd ?st (naive_time 43200, 2200)
                           = Inr st'"
    using quiet_example [of None] by blast
  have past: "[(naive_time 0, 2000)] =
     filter (\<lambda>(t, p). seconds t \<le> seconds (naive_time 43200)
                         - 3600 * wick_lookback_hours default_config) (rows ?pd)"
    by (simp add: hourly_frame_def naive_time_def default_config_def)
  have "has_close ?pd" by (simp add: hourly_frame_def)
  from wick_cooldown_guarded [OF st' this past]
  have "cooldown_until st' = Some (naive_time 57600)"
    by (simp add: wick_detected_def default_config_def in_cooldown_def state_with_def
          plus_hours_def naive_time_def)
  then show ?thesis using st' by simp
qed

text \<open>
  C8.  At every step of the loop that completes on an open position, the rebalance is
  invoked, the counter incremented and one rebalance event recorded exactly when the price
  is below \<open>lowerBound \<times> (1 - bufferPct)\<close> or above \<open>upperBound \<times> (1 + bufferPct)\<close> and the
  timestamp is not before the cooldown that the wick block of the same step leaves;
  otherwise manager, counter and rebalance events are unchanged.  With the range
  (1700, 2300) and a buffer of 0.01 the price 2324 is outside the buffered range and the
  price 2320 is not.
\<close>

theorem rebalance_on_breach_outside_cooldown:
  assumes "has_close price_data" "position (lm st) = Some pos"
    and "main_step ops cfg price_data st (ts, price) = Inr st'"
  shows "(if outside_buffer cfg pos price \<and>
             \<not> in_cooldown (wick_cooldown cfg price_data ts price (cooldown_until st)) ts
          then (\<exists>r. rebalance_position ops cfg (lm st) price ts = (Inr r, lm st')) \<and>
               rebalance_count st' = rebalance_count st + 1 \<and>
               length (rebalances (recorder st')) = length (rebalances (recorder st)) + 1
          else lm st' = lm st \<and> rebalance_count st' = rebalance_count st \<and>
               rebalances (recorder st') = rebalances (recorder st))
       \<and> (outside_buffer cfg pos price \<longleftrightarrow>
            price < p_a pos * (1 - buffer_pct cfg) \<or> price > p_b pos * (1 + buffer_pct cfg))
       \<and> (p_a pos = 1700 \<and> p_b pos = 2300 \<and> buffer_pct cfg = 0.01 \<longrightarrow>
            outside_buffer cfg pos 2324 \<and> \<not> outside_buffer cfg pos 2320)"
proof -
  let ?fires = "outside_buffer cfg pos price \<and>
             \<not> in_cooldown (wick_cooldown cfg price_data ts price (cooldown_until st)) ts"
  have a: "(\<exists>r. rebalance_position ops cfg (lm st) price ts = (Inr r, lm st')) \<and>
            rebalance_count st' = rebalance_count st + 1 \<and>
            length (rebalances (recorder st')) = length (rebalances (recorder st)) + 1"
    if ?fires
    using that assms(3)
    by (auto simp: main_step_open [OF assms(1,2)] Let_def record_position_def
          record_rebalance_def split: prod.splits sum.splits)
  have b: "lm st' = lm st \<and> rebalance_count st' = rebalance_count st \<and>
            rebalances (recorder st') = rebalances (recorder st)"
    if "\<not> ?fires"
    using that assms(3)
    by (auto simp: main_step_open [OF assms(1,2)] Let_def record_position_def
          split: prod.splits sum.splits)
  have c: "outside_buffer cfg pos 2324 \<and> \<not> outside_buffer cfg pos 2320"
    if "p_a pos = 1700 \<and> p_b pos = 2300 \<and> buffer_pct cfg = 0.01"
    using that by (simp add: outside_buffer_def)
  have d: "outside_buffer cfg pos price \<longleftrightarrow>
            price < p_a pos * (1 - buffer_pct cfg) \<or> price > p_b pos * (1 + buffer_pct cfg)"
    by (simp add: outside_buffer_def)
  show ?thesis using a b c d by presburger
qed

lemma rebalance_example:
  "\<exists>r m2 v. rebalance_position (uniform_chain 2 2800) default_config
             (manager_with default_config (position_with_range 1700 2300)) 2324
             (naive_time 5600) = (Inr r, m2) \<and>
           get_position_value_impl m2 2324 = Inr v"
proof -
  let ?m = "manager_with default_config (position_with_range 1700 2300)"
  obtain v where v: "get_position_value_impl ?m 2324 = Inr v"
    using position_value_defined [of ?m "position_with_range 1700 2300" 2324]
    by (auto simp: manager_with_def position_with_range_def)
  let ?m1 = "\<lparr> current_capital = v * 0.999, position = None, slippage_factor = 0.001,
               config = default_config \<rparr>"
  have c: "close_position (uniform_chain 2 2800) default_config ?m 2324 (naive_time 5600) =
             (Inr (v * 0.999), ?m1)"
    using close_on_uniform_chain_at [OF v] by simp
  have cfg: "0 < lower_bound_factor (config ?m1)"
    "lower_bound_factor (config ?m1) < upper_bound_factor (config ?m1)"
    by (simp_all add: default_config_def)
  obtain pos where o: "open_position ?m1 2324 (naive_time 5600) =
                         (Inr pos, ?m1\<lparr>position := Some pos\<rparr>)"
    and pos: "p_a pos = 2324 * lower_bound_factor (config ?m1)"
             "p_b pos = 2324 * upper_bound_factor (config ?m1)"
    using open_position_unfold(2) [OF _ cfg, of 2324 "naive_time 5600"]
    by (simp add: Let_def)
  have "\<exists>w. get_position_value_impl (?m1\<lparr>position := Some pos\<rparr>) 2324 = Inr w"
    using position_value_defined [of "?m1\<lparr>position := Some pos\<rparr>" pos 2324] pos
    by (simp add: default_config_def)
  moreover have "rebalance_position (uniform_chain 2 2800) default_config ?m 2324
                   (naive_time 5600) =
                 (Inr (pos, v * 0.999), ?m1\<lparr>position := Some pos\<rparr>)"
    using c o by (simp add: rebalance_position_def)
  ultimately show ?thesis by blast
qed

theorem rebalance_on_breach_outside_cooldown_witness:
  "\<exists>st'. main_step (uniform_chain 2 2800) default_config
            (hourly_frame [(2000, 2000), (5600, 2324)])
            (state_with (manager_with default_config (position_with_range 1700 2300)) None)
            (naive_time 5600, 2324) = Inr st' \<and>
         rebalance_count st' = 1 \<and> length (rebalances (recorder st')) = 1 \<and>
         (\<exists>r. rebalance_position (uniform_chain 2 2800) default_config
                (manager_with default_config (position_with_range 1700 2300)) 2324
                (naive_time 5600) = (Inr r, lm st'))"
proof -
  let ?pd = "hourly_frame [(2000, 2000), (5600, 2324)]"
  let ?m = "manager_with default_config (position_with_range 1700 2300)"
  let ?st = "state_with ?m None"
  have hc: "has_close ?pd" by (simp add: hourly_frame_def)
  have pos: "position (lm ?st) = Some (position_with_range 1700 2300)"
    by (simp add: state_with_def manager_with_def)
  have st: "lm ?st = ?m" "rebalance_count ?st = 0" "rebalances (recorder ?st) = []"
    "cooldown_until ?st = None"
    by (simp_all add: state_with_def)
  have quiet: "wick_cooldown default_config ?pd (naive_time 5600) 2324 None = None"
    by (simp add: wick_cooldown_def hourly_frame_def naive_time_def default_config_def)
  have out: "outside_buffer default_config (position_with_range 1700 2300) 2324"
    by (simp add: outside_buffer_def position_with_range_def default_config_def)
  have fires: "outside_buffer default_config (position_with_range 1700 2300) 2324 \<and>
      \<not> in_cooldown (wick_cooldown default_config ?pd (naive_time 5600) 2324
                        (cooldown_until ?st)) (naive_time 5600)"
    using out by (simp add: st quiet in_cooldown_def)
  obtain r m2 v where rb: "rebalance_position (uniform_chain 2 2800) default_config ?m 2324
                             (naive_time 5600) = (Inr r, m2)"
    and v: "get_position_value_impl m2 2324 = Inr v"
    using rebalance_example by blast
  have "\<exists>st'. main_step (uniform_chain 2 2800) default_config ?pd ?st (naive_time 5600, 2324)
                 = Inr st'"
    using out rb v
    by (simp add: main_step_open [OF hc pos] st quiet in_cooldown_def Let_def)
  then obtain st' where st': "main_step (uniform_chain 2 2800) default_config ?pd ?st
                                (naive_time 5600, 2324) = Inr st'" ..
  from conjunct1 [OF rebalance_on_breach_outside_cooldown [OF hc pos st']] fires
  have "(\<exists>r. rebalance_position (uniform_chain 2 2800) default_config (lm ?st) 2324
                (naive_time 5600) = (Inr r, lm st')) \<and>
        rebalance_count st' = rebalance_count ?st + 1 \<and>
        length (rebalances (recorder st')) = length (rebalances (recorder ?st)) + 1"
    by (simp only: simp_thms if_True)
  then show ?thesis using st' by (simp add: st)
qed

end
